theory Spec2Isabelle
  imports Complex_Main
begin

section \<open>Python values\<close>

text \<open>
  The dictionaries that travel between the components (trade aggregates, activity spike
  events, order-book feature events) are Python \<^verbatim>\<open>dict\<close>s with string keys. Their
  values are \<^verbatim>\<open>None\<close>, numbers or strings. \<open>'n\<close> is the type of the numbers. The
  analyzer computes with them through Python's own operations, which are parameters of
  its model (see \<open>arith\<close> below): nothing is assumed there about rounding, overflow,
  infinities or NaN. The runner only subtracts and compares clock values; there the
  numbers are real.
\<close>

datatype 'n pyval = PNone | Num 'n | Str string

type_synonym 'n dict = "string \<rightharpoonup> 'n pyval"

type_synonym pydict = "real dict"

text \<open>
  Exceptions. \<^verbatim>\<open>except Exception\<close> catches the instances of \<^verbatim>\<open>Exception\<close> and lets
  the others (\<^verbatim>\<open>KeyboardInterrupt\<close>, \<^verbatim>\<open>SystemExit\<close>: instances of \<^verbatim>\<open>BaseException\<close>
  only) pass. The string is the name of the exception's class.
\<close>

datatype exn = Exception string | BaseException string

text \<open>\<^verbatim>\<open>d.get(k, default)\<close>\<close>

definition dict_get :: "'n dict \<Rightarrow> string \<Rightarrow> 'n pyval \<Rightarrow> 'n pyval" where
  "dict_get d k dflt = (case d k of None \<Rightarrow> dflt | Some v \<Rightarrow> v)"

text \<open>Truth value of a Python object in a condition: \<^verbatim>\<open>None\<close>, zero and the empty string are false.\<close>

fun truthy :: "real pyval \<Rightarrow> bool" where
  "truthy PNone = False"
| "truthy (Num x) = (x \<noteq> 0)"
| "truthy (Str s) = (s \<noteq> [])"

text \<open>
  A value used in arithmetic and in an ordering comparison with a number.
  \<^verbatim>\<open>None + 1\<close>, \<^verbatim>\<open>'a' + 1\<close> and \<^verbatim>\<open>'a' > 0\<close> raise \<^verbatim>\<open>TypeError\<close>.
\<close>

fun as_num :: "real pyval \<Rightarrow> exn + real" where
  "as_num (Num x) = Inr x"
| "as_num PNone = Inl (Exception ''TypeError'')"
| "as_num (Str s) = Inl (Exception ''TypeError'')"

text \<open>
  The operations of Python that \<^verbatim>\<open>process_event\<close> applies to the values of an
  aggregate, and the literals it uses. Each operation is taken as Python performs it on
  the operands it gets: \<^verbatim>\<open>x + y\<close> and \<^verbatim>\<open>x / y\<close> give a value or raise
  (\<^verbatim>\<open>TypeError\<close>, \<^verbatim>\<open>ZeroDivisionError\<close>, \<^verbatim>\<open>OverflowError\<close>), with the rounding of
  floats and the exactness of ints as Python has them; \<^verbatim>\<open>x > y\<close> and \<^verbatim>\<open>x < y\<close> give a
  truth value or raise; \<^verbatim>\<open>x == y\<close> gives a truth value; \<^verbatim>\<open>f"{x:.2f}"\<close> formats or
  raises. The literals are \<^verbatim>\<open>0\<close>, \<^verbatim>\<open>1\<close>, \<^verbatim>\<open>1.0\<close> and \<^verbatim>\<open>1_000_000.0\<close>.
\<close>

record 'n arith =
  py_add :: "'n pyval \<Rightarrow> 'n pyval \<Rightarrow> exn + 'n pyval"
  py_truediv :: "'n pyval \<Rightarrow> 'n pyval \<Rightarrow> exn + 'n pyval"
  py_gt :: "'n pyval \<Rightarrow> 'n pyval \<Rightarrow> exn + bool"
  py_lt :: "'n pyval \<Rightarrow> 'n pyval \<Rightarrow> exn + bool"
  py_eq :: "'n pyval \<Rightarrow> 'n pyval \<Rightarrow> bool"
  int_zero :: 'n
  int_one :: 'n
  float_one :: 'n
  sentinel :: 'n
  format_2f :: "'n pyval \<Rightarrow> exn option"


section \<open>TradeActivityAnalyzer\<close>

text \<open>
  \<^verbatim>\<open>analyzer/trade_activity_analyzer.py\<close>. The fields of the class; \<open>'c\<close> is the type of
  the registered callbacks. An empty \<open>save_path\<close> stands for both falsy values of the
  Python attribute (\<^verbatim>\<open>""\<close> and \<^verbatim>\<open>None\<close>).
\<close>

record ('n, 'c) analyzer =
  volume_threshold :: 'n
  imbalance_ratio_high :: 'n
  imbalance_ratio_low :: 'n
  spike_multiplier :: 'n
  enable_logging :: bool
  save_path :: string
  callbacks :: "'c list"

text \<open>
  The file system: the regular files with their contents, the paths that exist without
  being a regular file (directories), and for every path the exception that opening it
  for writing raises, if any (a missing directory above it, a missing permission).
  Once a file is open, writing to it and closing it succeed.
\<close>

record filesystem =
  contents :: "string \<rightharpoonup> string"
  directories :: "string set"
  open_error :: "string \<Rightarrow> exn option"

text \<open>\<^verbatim>\<open>os.path.exists(path)\<close>\<close>

definition path_exists :: "filesystem \<Rightarrow> string \<Rightarrow> bool" where
  "path_exists fs path = (contents fs path \<noteq> None \<or> path \<in> directories fs)"

text \<open>
  The exception of \<^verbatim>\<open>open(path, "w")\<close> and of \<^verbatim>\<open>open(path, "a")\<close>, if the call
  raises: a directory cannot be opened for writing.
\<close>

definition open_write :: "filesystem \<Rightarrow> string \<Rightarrow> exn option" where
  "open_write fs path =
     (if path \<in> directories fs then Some (Exception ''IsADirectoryError'')
      else open_error fs path)"

text \<open>The fields after the assignments of \<^verbatim>\<open>__init__\<close>: the six parameters and no callback.\<close>

definition new_analyzer :: "'n \<Rightarrow> 'n \<Rightarrow> 'n \<Rightarrow> 'n \<Rightarrow> bool \<Rightarrow> string \<Rightarrow> ('n, 'c) analyzer" where
  "new_analyzer vt hi lo sm el sp =
     \<lparr> volume_threshold = vt, imbalance_ratio_high = hi, imbalance_ratio_low = lo,
       spike_multiplier = sm, enable_logging = el, save_path = sp, callbacks = [] \<rparr>"

text \<open>
  \<^verbatim>\<open>__init__\<close>: after the assignments, when a path is configured and nothing exists
  there, the file is opened with \<^verbatim>\<open>open(path, "w")\<close> and closed again, which leaves it
  empty. When that call raises, the exception leaves the constructor, there is no
  analyzer, and no file was made.
\<close>

definition analyzer_init ::
  "'n \<Rightarrow> 'n \<Rightarrow> 'n \<Rightarrow> 'n \<Rightarrow> bool \<Rightarrow> string \<Rightarrow> filesystem \<Rightarrow> (exn + ('n, 'c) analyzer) \<times> filesystem" where
  "analyzer_init vt hi lo sm el sp fs =
     (if sp \<noteq> [] \<and> \<not> path_exists fs sp then
        (case open_write fs sp of
           Some x \<Rightarrow> (Inl x, fs)
         | None \<Rightarrow> (Inr (new_analyzer vt hi lo sm el sp), fs\<lparr> contents := (contents fs)(sp \<mapsto> []) \<rparr>))
      else (Inr (new_analyzer vt hi lo sm el sp), fs))"

text \<open>The default of the parameter \<^verbatim>\<open>save_path\<close>.\<close>

definition default_save_path :: string where
  "default_save_path = ''activity_spikes.jsonl''"

text \<open>\<^verbatim>\<open>on_activity\<close>\<close>

definition on_activity :: "'c \<Rightarrow> ('n, 'c) analyzer \<Rightarrow> ('n, 'c) analyzer" where
  "on_activity cb a = a\<lparr> callbacks := callbacks a @ [cb] \<rparr>"

subsection \<open>The detection of \<^verbatim>\<open>process_event\<close>\<close>

text \<open>\<^verbatim>\<open>event.get(k, 0)\<close>\<close>

definition field0 :: "'n arith \<Rightarrow> 'n dict \<Rightarrow> string \<Rightarrow> 'n pyval" where
  "field0 ar event k = dict_get event k (Num (int_zero ar))"

text \<open>Lines 43 and 51: \<^verbatim>\<open>buy_volume + sell_volume\<close> and \<^verbatim>\<open>buy_mean + sell_mean\<close>.\<close>

definition total_volume :: "'n arith \<Rightarrow> 'n dict \<Rightarrow> exn + 'n pyval" where
  "total_volume ar event = py_add ar (field0 ar event ''buy_volume'') (field0 ar event ''sell_volume'')"

definition ma_volume :: "'n arith \<Rightarrow> 'n dict \<Rightarrow> exn + 'n pyval" where
  "ma_volume ar event = py_add ar (field0 ar event ''buy_mean'') (field0 ar event ''sell_mean'')"

text \<open>
  Line 53, \<^verbatim>\<open>ma_volume > 0 and total_volume / ma_volume > self.spike_multiplier\<close>: the
  division is only reached when the first comparison is true.
\<close>

definition spike_cond :: "'n arith \<Rightarrow> ('n, 'c) analyzer \<Rightarrow> 'n pyval \<Rightarrow> 'n pyval \<Rightarrow> exn + bool" where
  "spike_cond ar a tot ma =
     (case py_gt ar ma (Num (int_zero ar)) of
        Inl x \<Rightarrow> Inl x
      | Inr False \<Rightarrow> Inr False
      | Inr True \<Rightarrow>
          (case py_truediv ar tot ma of
             Inl x \<Rightarrow> Inl x
           | Inr q \<Rightarrow> py_gt ar q (Num (spike_multiplier a))))"

text \<open>
  Line 55,
  \<^verbatim>\<open>buy_volume / sell_volume if sell_volume > 0 else 1_000_000.0 if buy_volume > 0 else 1.0\<close>.
\<close>

definition buy_sell_ratio :: "'n arith \<Rightarrow> 'n pyval \<Rightarrow> 'n pyval \<Rightarrow> exn + 'n pyval" where
  "buy_sell_ratio ar buy sell =
     (case py_gt ar sell (Num (int_zero ar)) of
        Inl x \<Rightarrow> Inl x
      | Inr True \<Rightarrow> py_truediv ar buy sell
      | Inr False \<Rightarrow>
          (case py_gt ar buy (Num (int_zero ar)) of
             Inl x \<Rightarrow> Inl x
           | Inr True \<Rightarrow> Inr (Num (sentinel ar))
           | Inr False \<Rightarrow> Inr (Num (float_one ar))))"

text \<open>
  Lines 56 to 59, \<^verbatim>\<open>ratio > self.imbalance_ratio_high or ratio < self.imbalance_ratio_low\<close>:
  the second comparison is only reached when the first is false.
\<close>

definition imbalance_cond :: "'n arith \<Rightarrow> ('n, 'c) analyzer \<Rightarrow> 'n pyval \<Rightarrow> exn + bool" where
  "imbalance_cond ar a ratio =
     (case py_gt ar ratio (Num (imbalance_ratio_high a)) of
        Inl x \<Rightarrow> Inl x
      | Inr True \<Rightarrow> Inr True
      | Inr False \<Rightarrow> py_lt ar ratio (Num (imbalance_ratio_low a)))"

text \<open>Line 60, \<^verbatim>\<open>total_volume > self.volume_threshold\<close>.\<close>

definition volume_exceeded_cond :: "'n arith \<Rightarrow> ('n, 'c) analyzer \<Rightarrow> 'n pyval \<Rightarrow> exn + bool" where
  "volume_exceeded_cond ar a tot = py_gt ar tot (Num (volume_threshold a))"

text \<open>The dictionary \<^verbatim>\<open>spike_data\<close> of lines 65 to 76.\<close>

definition spike_data ::
  "'n pyval \<Rightarrow> 'n pyval \<Rightarrow> 'n pyval \<Rightarrow> 'n pyval \<Rightarrow> 'n pyval \<Rightarrow> 'n pyval \<Rightarrow> 'n pyval
     \<Rightarrow> string \<Rightarrow> string \<Rightarrow> 'n dict" where
  "spike_data now buy sell ratio avg_price trade_count ma direction reason =
     [''ts'' \<mapsto> now,
      ''type'' \<mapsto> Str ''trade_activity_spike'',
      ''buy_volume'' \<mapsto> buy,
      ''sell_volume'' \<mapsto> sell,
      ''buy_sell_ratio'' \<mapsto> ratio,
      ''avg_price'' \<mapsto> avg_price,
      ''trade_count'' \<mapsto> trade_count,
      ''ma_volume'' \<mapsto> ma,
      ''direction'' \<mapsto> Str direction,
      ''reason'' \<mapsto> Str reason]"

text \<open>
  Lines 40 to 76 of \<^verbatim>\<open>process_event\<close>, in the order in which Python evaluates them:
  what the method decides before it touches the file or a callback. \<open>clock\<close> is the
  value of \<^verbatim>\<open>time.time()\<close>. The result is \<open>Inr None\<close> when the method returns without
  an event, \<open>Inr (Some d)\<close> when it builds the event \<open>d\<close>, and \<open>Inl\<close> when an
  operation raises. The moving averages are read only after the test for a zero total,
  the three conditions are all computed before the test of line 62, and the direction
  is computed after it.
\<close>

definition spike_event ::
  "'n arith \<Rightarrow> ('n, 'c) analyzer \<Rightarrow> 'n \<Rightarrow> 'n dict \<Rightarrow> exn + 'n dict option" where
  "spike_event ar a clock event =
     (case total_volume ar event of
        Inl x \<Rightarrow> Inl x
      | Inr tot \<Rightarrow>
          if py_eq ar tot (Num (int_zero ar)) then Inr None
          else
     (case ma_volume ar event of
        Inl x \<Rightarrow> Inl x
      | Inr ma \<Rightarrow>
     (case spike_cond ar a tot ma of
        Inl x \<Rightarrow> Inl x
      | Inr spike \<Rightarrow>
     (case buy_sell_ratio ar (field0 ar event ''buy_volume'') (field0 ar event ''sell_volume'') of
        Inl x \<Rightarrow> Inl x
      | Inr ratio \<Rightarrow>
     (case imbalance_cond ar a ratio of
        Inl x \<Rightarrow> Inl x
      | Inr imbalance \<Rightarrow>
     (case volume_exceeded_cond ar a tot of
        Inl x \<Rightarrow> Inl x
      | Inr volume_exceeded \<Rightarrow>
          if spike \<or> imbalance \<or> volume_exceeded then
            (case py_gt ar ratio (Num (int_one ar)) of
               Inl x \<Rightarrow> Inl x
             | Inr is_buy \<Rightarrow>
                 Inr (Some (spike_data (dict_get event ''ts'' (Num clock))
                              (field0 ar event ''buy_volume'') (field0 ar event ''sell_volume'')
                              ratio
                              (field0 ar event ''avg_price'') (field0 ar event ''trade_count'')
                              ma
                              (if is_buy then ''buy'' else ''sell'')
                              (if spike then ''spike''
                               else if imbalance then ''imbalance'' else ''volume_exceeded''))))
          else Inr None))))))"

subsection \<open>The effects of \<^verbatim>\<open>process_event\<close>\<close>

text \<open>
  What the method does, in the order in which it does it: the append to the file, the
  calls of the callbacks, the warning of the logger.
\<close>

datatype 'n effect =
    FileAppend string string
  | CallbackCall nat "'n dict"
  | LogWarning "'n dict"

text \<open>
  The world the method runs in: the files, the effects so far (oldest first) and the
  state \<open>'u\<close> the callbacks work on. A callback gets the event and that state; it
  returns the new state and, when it raises, the exception. The callbacks leave the
  dictionary of the event and the files as they are.
\<close>

record ('n, 'u) world =
  files :: filesystem
  effects :: "'n effect list"
  user :: 'u

type_synonym ('n, 'u) callback = "'n dict \<Rightarrow> 'u \<Rightarrow> exn option \<times> 'u"

text \<open>\<^verbatim>\<open>f.write(text)\<close> on a file opened with \<^verbatim>\<open>open(path, "a")\<close>: a missing file starts empty.\<close>

definition file_append :: "string \<Rightarrow> string \<Rightarrow> filesystem \<Rightarrow> filesystem" where
  "file_append path text fs =
     fs\<lparr> contents := (contents fs)(path \<mapsto>
            (case contents fs path of None \<Rightarrow> [] | Some old \<Rightarrow> old) @ text) \<rparr>"

text \<open>
  \<^verbatim>\<open>for cb in self.callbacks: cb(spike_data)\<close>, from the callback of index \<open>i\<close> on: the
  first exception ends the loop and leaves the method.
\<close>

fun run_callbacks ::
  "nat \<Rightarrow> ('n, 'u) callback list \<Rightarrow> 'n dict \<Rightarrow> ('n, 'u) world \<Rightarrow> exn option \<times> ('n, 'u) world" where
  "run_callbacks i [] d w = (None, w)"
| "run_callbacks i (cb # cbs) d w =
     (let w1 = w\<lparr> effects := effects w @ [CallbackCall i d] \<rparr>;
          r = cb d (user w1);
          w2 = w1\<lparr> user := snd r \<rparr>
      in case fst r of
           Some x \<Rightarrow> (Some x, w2)
         | None \<Rightarrow> run_callbacks (Suc i) cbs d w2)"

text \<open>
  Lines 77 to 79: with a path configured, the file is opened for appending and one line
  (the text of the event and a newline) goes to its end. When \<^verbatim>\<open>open\<close> raises, the
  exception leaves the method and nothing was written. \<open>dumps\<close> is
  \<^verbatim>\<open>json.dumps(..., ensure_ascii=False)\<close>, which does not raise on a dictionary of
  \<^verbatim>\<open>None\<close>, numbers and strings.
\<close>

definition write_log ::
  "('n dict \<Rightarrow> string) \<Rightarrow> ('n, 'c) analyzer \<Rightarrow> 'n dict \<Rightarrow> ('n, 'u) world \<Rightarrow> exn option \<times> ('n, 'u) world" where
  "write_log dumps a d w =
     (if save_path a \<noteq> [] then
        (case open_write (files w) (save_path a) of
           Some x \<Rightarrow> (Some x, w)
         | None \<Rightarrow>
             (None, w\<lparr> files := file_append (save_path a) (dumps d @ [CHR 0x0A]) (files w),
                       effects := effects w @ [FileAppend (save_path a) (dumps d @ [CHR 0x0A])] \<rparr>))
      else (None, w))"

text \<open>
  Lines 77 to 85: the event is written, then handed to the callbacks, then logged. The
  message of the warning formats the total volume with \<^verbatim>\<open>:.2f\<close>, which may raise.
\<close>

definition emit ::
  "'n arith \<Rightarrow> ('n dict \<Rightarrow> string) \<Rightarrow> ('n, ('n, 'u) callback) analyzer \<Rightarrow> 'n pyval \<Rightarrow> 'n dict
     \<Rightarrow> ('n, 'u) world \<Rightarrow> exn option \<times> ('n, 'u) world" where
  "emit ar dumps a tot d w =
     (case fst (write_log dumps a d w) of
        Some x \<Rightarrow> (Some x, snd (write_log dumps a d w))
      | None \<Rightarrow>
          (let r = run_callbacks 0 (callbacks a) d (snd (write_log dumps a d w))
           in case fst r of
                Some x \<Rightarrow> (Some x, snd r)
              | None \<Rightarrow>
                  if enable_logging a then
                    (case format_2f ar tot of
                       Some x \<Rightarrow> (Some x, snd r)
                     | None \<Rightarrow> (None, (snd r)\<lparr> effects := effects (snd r) @ [LogWarning d] \<rparr>))
                  else (None, snd r)))"

definition process_event ::
  "'n arith \<Rightarrow> ('n dict \<Rightarrow> string) \<Rightarrow> ('n, ('n, 'u) callback) analyzer \<Rightarrow> 'n \<Rightarrow> 'n dict
     \<Rightarrow> ('n, 'u) world \<Rightarrow> exn option \<times> ('n, 'u) world" where
  "process_event ar dumps a clock event w =
     (case spike_event ar a clock event of
        Inl x \<Rightarrow> (Some x, w)
      | Inr None \<Rightarrow> (None, w)
      | Inr (Some d) \<Rightarrow>
          (case total_volume ar event of
             Inl x \<Rightarrow> (Some x, w)
           | Inr tot \<Rightarrow> emit ar dumps a tot d w))"

text \<open>
  What a call of the method added to the effects, and, among that, the texts written to
  files and the events handed to callbacks.
\<close>

definition new_effects :: "('n, 'u) world \<Rightarrow> ('n, 'u) world \<Rightarrow> 'n effect list" where
  "new_effects w w' = drop (length (effects w)) (effects w')"

fun append_of :: "'n effect \<Rightarrow> (string \<times> string) list" where
  "append_of (FileAppend path text) = [(path, text)]"
| "append_of (CallbackCall i d) = []"
| "append_of (LogWarning d) = []"

fun call_of :: "'n effect \<Rightarrow> (nat \<times> 'n dict) list" where
  "call_of (FileAppend path text) = []"
| "call_of (CallbackCall i d) = [(i, d)]"
| "call_of (LogWarning d) = []"

definition appended :: "'n effect list \<Rightarrow> (string \<times> string) list" where
  "appended es = concat (map append_of es)"

definition delivered :: "'n effect list \<Rightarrow> (nat \<times> 'n dict) list" where
  "delivered es = concat (map call_of es)"

text \<open>
  The stream of trades calls \<^verbatim>\<open>process_event\<close> once for each aggregate, at the time
  given with it. An exception leaves the call that raised it; the next aggregate is
  processed in the world that call left.
\<close>

fun process_all ::
  "'n arith \<Rightarrow> ('n dict \<Rightarrow> string) \<Rightarrow> ('n, ('n, 'u) callback) analyzer \<Rightarrow> ('n \<times> 'n dict) list
     \<Rightarrow> ('n, 'u) world \<Rightarrow> ('n, 'u) world" where
  "process_all ar dumps a [] w = w"
| "process_all ar dumps a (ce # ces) w =
     process_all ar dumps a ces (snd (process_event ar dumps a (fst ce) (snd ce) w))"

section \<open>CombinedStreamRunner\<close>

text \<open>
  \<^verbatim>\<open>runner.py\<close>. The classes of the order book, the trade stream, the merger, the signal
  detector and the model are not part of these sources. The runner touches them through
  the registration of callbacks, through \<^verbatim>\<open>stop()\<close>, through the getters of the order
  book, through \<^verbatim>\<open>merger.add_orderbook\<close> and through \<^verbatim>\<open>model_runner.predict\<close>; the
  results of those calls are parameters here, and what the runner hands over is recorded
  in its state.
\<close>

datatype handler =
    HandleOrderbookUpdate
  | SignalProcessOrderbook
  | HandleSignal
  | MergerAddTrade
  | HandleTradeAggregate
  | AnalyzerProcessEvent
  | HandleActivitySpike
  | HandleInference

datatype component = OrderbookC | TradesC | MergerC

text \<open>
  The fields of the class. \<open>'m\<close> is the type of a loaded model. The lists of handlers
  are the callbacks registered with the components, in registration order;
  \<open>merger_added\<close> holds the arguments of \<^verbatim>\<open>merger.add_orderbook\<close> and \<open>predicted\<close>
  those of \<^verbatim>\<open>model_runner.predict\<close>, oldest first.
\<close>

record 'm runner =
  symbol :: string
  orderbook_on_update :: "handler list"
  signal_on_signal :: "handler list"
  trades_on_raw_trade :: "handler list"
  trades_on_trade_aggregate :: "handler list"
  merger_on_merge :: "handler list"
  merger_model_runner :: "'m option"
  merger_added :: "pydict list"
  predicted :: "pydict list"
  activity_analyzer :: "(real, handler) analyzer"
  tasks :: "component list"
  running :: bool
  model_runner :: "'m option"
  last_activity_spike_ts :: "real pyval"
  activity_spike_ttl :: real
  latest_trade_agg :: pydict

text \<open>The fields after the assignments of lines 42 to 54, with the analyzer of line 46.\<close>

definition fresh_runner :: "string \<Rightarrow> (real, handler) analyzer \<Rightarrow> 'm runner" where
  "fresh_runner name an =
     \<lparr> symbol = name,
       orderbook_on_update = [], signal_on_signal = [],
       trades_on_raw_trade = [], trades_on_trade_aggregate = [],
       merger_on_merge = [], merger_model_runner = None,
       merger_added = [], predicted = [],
       activity_analyzer = an,
       tasks = [], running = False, model_runner = None,
       last_activity_spike_ts = PNone, activity_spike_ttl = 1,
       latest_trade_agg = Map.empty \<rparr>"

text \<open>
  \<^verbatim>\<open>__init__\<close>. \<open>load\<close> is the constructor \<^verbatim>\<open>ModelRunner(model_path)\<close>: it returns a
  model or raises. An empty \<open>model_path\<close> stands for the falsy values of the parameter
  (\<^verbatim>\<open>None\<close>, the default, and \<^verbatim>\<open>""\<close>). The analyzer is built with its defaults
  (written as the numbers that the literals \<^verbatim>\<open>10.0\<close>, \<^verbatim>\<open>2.0\<close>, \<^verbatim>\<open>0.5\<close> and \<^verbatim>\<open>1.2\<close>
  denote: the runner does not compute with them) and \<^verbatim>\<open>enable_logging=False\<close>,
  which may create its file; when its constructor raises, the exception leaves
  \<^verbatim>\<open>__init__\<close> before the model is looked at. The constructors of the components
  that are not part of these sources are taken to return. The result is the new runner,
  or the exception that leaves \<^verbatim>\<open>__init__\<close>, and the files.
\<close>

definition runner_init ::
  "(string \<Rightarrow> exn + 'm) \<Rightarrow> string \<Rightarrow> string \<Rightarrow> filesystem \<Rightarrow> (exn + 'm runner) \<times> filesystem" where
  "runner_init load name model_path fs =
     (let built = analyzer_init 10 2 (1/2) (12/10) False default_save_path fs
      in case fst built of
           Inl x \<Rightarrow> (Inl x, snd built)
         | Inr an \<Rightarrow>
             (let r = fresh_runner name an
              in if model_path \<noteq> [] then
                   (case load model_path of
                      Inr m \<Rightarrow> (Inr (r\<lparr> model_runner := Some m, merger_model_runner := Some m \<rparr>),
                                snd built)
                    | Inl (Exception n) \<Rightarrow> (Inr r, snd built)
                    | Inl (BaseException n) \<Rightarrow> (Inl (BaseException n), snd built))
                 else (Inr r, snd built)))"

text \<open>
  Modelled from the spec: the registration methods of the classes that are not part of
  these sources (\<^verbatim>\<open>on_update\<close>, \<^verbatim>\<open>on_signal\<close>, \<^verbatim>\<open>on_raw_trade\<close>,
  \<^verbatim>\<open>on_trade_aggregate\<close>, \<^verbatim>\<open>on_merge\<close>). The spec has the callbacks of a component
  as an explicit list of handlers, invoked in registration order; registering adds the
  handler at the end of the list, as \<^verbatim>\<open>on_activity\<close> of the analyzer does.
\<close>

definition register :: "'c \<Rightarrow> 'c list \<Rightarrow> 'c list" where
  "register cb cbs = cbs @ [cb]"

text \<open>\<^verbatim>\<open>_setup_callbacks\<close>\<close>

definition setup_callbacks :: "'m runner \<Rightarrow> 'm runner" where
  "setup_callbacks r =
     r\<lparr> orderbook_on_update :=
          register SignalProcessOrderbook (register HandleOrderbookUpdate (orderbook_on_update r)),
        signal_on_signal := register HandleSignal (signal_on_signal r),
        trades_on_raw_trade := register MergerAddTrade (trades_on_raw_trade r),
        trades_on_trade_aggregate :=
          register AnalyzerProcessEvent (register HandleTradeAggregate (trades_on_trade_aggregate r)),
        activity_analyzer := on_activity HandleActivitySpike (activity_analyzer r),
        merger_on_merge :=
          (if model_runner r \<noteq> None then register HandleInference (merger_on_merge r)
           else merger_on_merge r) \<rparr>"

text \<open>\<^verbatim>\<open>_handle_trade_aggregate\<close>\<close>

definition handle_trade_aggregate :: "pydict \<Rightarrow> 'm runner \<Rightarrow> 'm runner" where
  "handle_trade_aggregate agg_data r = r\<lparr> latest_trade_agg := agg_data \<rparr>"

text \<open>
  The order book as \<^verbatim>\<open>_handle_orderbook_update\<close> reads it: the results of
  \<^verbatim>\<open>get_mid_price()\<close>, \<^verbatim>\<open>get_imbalance()\<close> and \<^verbatim>\<open>get_near_price_volume()\<close>, and the
  attribute \<^verbatim>\<open>last_update_ts\<close>.
\<close>

record orderbook =
  mid_price :: "real option"
  imbalance :: "real \<times> real \<times> real"
  near_price_volume :: pydict
  last_update_ts :: real

text \<open>
  The dictionary of lines 108 to 117. In a dictionary display a later entry replaces an
  earlier one with the same key, so the entries of \<^verbatim>\<open>near_price_volume\<close> replace the
  six fields written out, and those of the cached aggregate replace both.
\<close>

definition orderbook_event :: "orderbook \<Rightarrow> real \<Rightarrow> real \<Rightarrow> pydict \<Rightarrow> pydict" where
  "orderbook_event ob mp feature agg =
     [''ts'' \<mapsto> Num (last_update_ts ob),
      ''mid_price'' \<mapsto> Num mp,
      ''imbalance'' \<mapsto> Num (fst (imbalance ob)),
      ''bid_volume'' \<mapsto> Num (fst (snd (imbalance ob))),
      ''ask_volume'' \<mapsto> Num (snd (snd (imbalance ob))),
      ''activity_spike'' \<mapsto> Num feature]
     ++ near_price_volume ob ++ agg"

text \<open>
  \<^verbatim>\<open>self.merger.add_orderbook(event)\<close>: the call is recorded with its argument. What
  the merger does with the event is not part of these sources.
\<close>

definition add_orderbook :: "pydict \<Rightarrow> 'm runner \<Rightarrow> 'm runner" where
  "add_orderbook ev r = r\<lparr> merger_added := merger_added r @ [ev] \<rparr>"

text \<open>
  \<^verbatim>\<open>_handle_orderbook_update\<close>; \<open>now\<close> is the value of \<^verbatim>\<open>time.time()\<close>. The condition
  of line 103 is \<^verbatim>\<open>x and (now - x < ttl)\<close>: a falsy \<open>x\<close> ends it, a string that is not
  empty reaches the subtraction, which raises.
\<close>

definition handle_orderbook_update :: "real \<Rightarrow> orderbook \<Rightarrow> 'm runner \<Rightarrow> exn option \<times> 'm runner" where
  "handle_orderbook_update now ob r =
     (case mid_price ob of
        None \<Rightarrow> (None, r)
      | Some mp \<Rightarrow>
          if mp = 0 then (None, r)
          else if truthy (last_activity_spike_ts r) then
            (case as_num (last_activity_spike_ts r) of
               Inl x \<Rightarrow> (Some x, r)
             | Inr t0 \<Rightarrow>
                 if now - t0 < activity_spike_ttl r
                 then (None, add_orderbook (orderbook_event ob mp 1 (latest_trade_agg r)) r)
                 else (None, add_orderbook (orderbook_event ob mp 0 (latest_trade_agg r))
                               (r\<lparr> last_activity_spike_ts := PNone \<rparr>)))
          else (None, add_orderbook (orderbook_event ob mp 0 (latest_trade_agg r))
                        (r\<lparr> last_activity_spike_ts := PNone \<rparr>)))"

text \<open>\<^verbatim>\<open>_handle_activity_spike\<close>: \<^verbatim>\<open>spike_data.get("ts")\<close> is \<^verbatim>\<open>None\<close> without the key.\<close>

definition handle_activity_spike :: "pydict \<Rightarrow> 'm runner \<Rightarrow> 'm runner" where
  "handle_activity_spike d r = r\<lparr> last_activity_spike_ts := dict_get d ''ts'' PNone \<rparr>"

text \<open>
  \<^verbatim>\<open>"{x:.3f}"\<close>: a number is formatted, \<^verbatim>\<open>None\<close> raises \<^verbatim>\<open>TypeError\<close>, a string
  \<^verbatim>\<open>ValueError\<close>; a missing key raises \<^verbatim>\<open>KeyError\<close> before that.
\<close>

definition format_3f :: "pydict \<Rightarrow> string \<Rightarrow> exn option" where
  "format_3f d k =
     (case d k of
        None \<Rightarrow> Some (Exception ''KeyError'')
      | Some PNone \<Rightarrow> Some (Exception ''TypeError'')
      | Some (Str s) \<Rightarrow> Some (Exception ''ValueError'')
      | Some (Num x) \<Rightarrow> None)"

text \<open>
  \<^verbatim>\<open>_handle_inference\<close>; \<open>predict\<close> is \<^verbatim>\<open>ModelRunner.predict\<close>. After the prediction
  the method only logs; building the message reads three keys and may raise.
\<close>

definition handle_inference ::
  "('m \<Rightarrow> pydict \<Rightarrow> pydict) \<Rightarrow> pydict \<Rightarrow> 'm runner \<Rightarrow> exn option \<times> 'm runner" where
  "handle_inference predict merged_record r =
     (case model_runner r of
        None \<Rightarrow> (None, r)
      | Some m \<Rightarrow>
          (let prediction = predict m merged_record;
               r1 = r\<lparr> predicted := predicted r @ [merged_record] \<rparr>
           in if prediction ''error'' = None then
                (if prediction ''direction'' = None then (Some (Exception ''KeyError''), r1)
                 else case format_3f prediction ''confidence'' of
                        Some x \<Rightarrow> (Some x, r1)
                      | None \<Rightarrow> (format_3f merged_record ''ts'', r1))
              else (None, r1)))"

text \<open>
  \<^verbatim>\<open>run\<close> up to its waiting loop: nothing when the runner runs already; else the flag,
  the callbacks and the three tasks.
\<close>

definition run_start :: "'m runner \<Rightarrow> 'm runner" where
  "run_start r =
     (if running r then r
      else (setup_callbacks (r\<lparr> running := True \<rparr>))\<lparr> tasks := [OrderbookC, TradesC, MergerC] \<rparr>)"

subsection \<open>\<^verbatim>\<open>stop\<close>\<close>

text \<open>
  What the components do when \<^verbatim>\<open>stop\<close> reaches them: whether \<^verbatim>\<open>orderbook.stop()\<close>,
  \<^verbatim>\<open>trades.stop()\<close> and \<^verbatim>\<open>merger.stop()\<close> return or raise, and which tasks are done
  when the loop of line 187 looks at them.
\<close>

record stop_env =
  orderbook_stop :: "exn option"
  trades_stop :: "exn option"
  merger_stop :: "exn option"
  task_done :: "component \<Rightarrow> bool"

text \<open>
  The steps of \<^verbatim>\<open>stop\<close> in program order. Each \<^verbatim>\<open>await\<close> is one step: what other
  tasks do while \<^verbatim>\<open>stop\<close> is suspended there is not part of the model.
\<close>

datatype stop_step =
    StopSource component
  | SourcesAwaited
  | StopMerger
  | MergerAwaited
  | CancelTask component
  | TasksAwaited

text \<open>
  \<^verbatim>\<open>asyncio.gather(..., return_exceptions=True)\<close> returns the exceptions of its
  children as results: an instance of \<^verbatim>\<open>Exception\<close>, and a \<^verbatim>\<open>CancelledError\<close> as
  well. A \<^verbatim>\<open>KeyboardInterrupt\<close> or \<^verbatim>\<open>SystemExit\<close> raised by a child is raised again
  by its task into the event loop, and \<^verbatim>\<open>stop\<close> does not go on.
\<close>

fun gather_abort :: "exn option list \<Rightarrow> exn option" where
  "gather_abort [] = None"
| "gather_abort (Some (BaseException n) # rs) =
     (if n = ''KeyboardInterrupt'' \<or> n = ''SystemExit'' then Some (BaseException n)
      else gather_abort rs)"
| "gather_abort (r # rs) = gather_abort rs"

definition stop :: "stop_env \<Rightarrow> 'm runner \<Rightarrow> exn option \<times> stop_step list \<times> 'm runner" where
  "stop env r =
     (if \<not> running r then (None, [], r)
      else
       (let r1 = r\<lparr> running := False \<rparr>;
            phase1 = [StopSource OrderbookC, StopSource TradesC]
        in case gather_abort [orderbook_stop env, trades_stop env] of
             Some x \<Rightarrow> (Some x, phase1, r1)
           | None \<Rightarrow>
               (case merger_stop env of
                  Some x \<Rightarrow> (Some x, phase1 @ [SourcesAwaited, StopMerger], r1)
                | None \<Rightarrow>
                    (None,
                     phase1 @ [SourcesAwaited, StopMerger, MergerAwaited]
                       @ map CancelTask (filter (\<lambda>t. \<not> task_done env t) (tasks r1))
                       @ [TasksAwaited],
                     r1))))"

text \<open>
  Order in a list of steps: every step that satisfies \<open>P\<close> has the step \<open>x\<close>
  somewhere before it.
\<close>

fun precedes :: "'a \<Rightarrow> ('a \<Rightarrow> bool) \<Rightarrow> 'a list \<Rightarrow> bool" where
  "precedes x P [] = True"
| "precedes x P (e # es) = (if e = x then True else \<not> P e \<and> precedes x P es)"

text \<open>The steps on the tasks: a cancellation, and the last \<^verbatim>\<open>gather\<close>.\<close>

fun is_task_step :: "stop_step \<Rightarrow> bool" where
  "is_task_step (CancelTask t) = True"
| "is_task_step TasksAwaited = True"
| "is_task_step s = False"

subsection \<open>Sequences of calls\<close>

text \<open>
  The methods of the runner that the components and the main program call, and a run of
  such calls from a state. An exception leaves the call that raised it; the state it
  reached stays, and the next call starts from it.
\<close>

datatype 'm call =
    CallSetupCallbacks
  | CallTradeAggregate pydict
  | CallOrderbookUpdate real orderbook
  | CallActivitySpike pydict
  | CallInference "'m \<Rightarrow> pydict \<Rightarrow> pydict" pydict
  | CallRun
  | CallStop stop_env

fun step :: "'m call \<Rightarrow> 'm runner \<Rightarrow> 'm runner" where
  "step CallSetupCallbacks r = setup_callbacks r"
| "step (CallTradeAggregate agg) r = handle_trade_aggregate agg r"
| "step (CallOrderbookUpdate now ob) r = snd (handle_orderbook_update now ob r)"
| "step (CallActivitySpike d) r = handle_activity_spike d r"
| "step (CallInference predict rec) r = snd (handle_inference predict rec r)"
| "step CallRun r = run_start r"
| "step (CallStop env) r = snd (snd (stop env r))"

fun steps :: "'m call list \<Rightarrow> 'm runner \<Rightarrow> 'm runner" where
  "steps [] r = r"
| "steps (c # cs) r = steps cs (step c r)"

text \<open>The calls that assign \<^verbatim>\<open>_last_activity_spike_ts\<close>.\<close>

fun sets_spike_ts :: "'m call \<Rightarrow> bool" where
  "sets_spike_ts (CallActivitySpike d) = True"
| "sets_spike_ts (CallOrderbookUpdate now ob) = True"
| "sets_spike_ts c = False"

fun is_trade_aggregate :: "'m call \<Rightarrow> bool" where
  "is_trade_aggregate (CallTradeAggregate agg) = True"
| "is_trade_aggregate c = False"

section \<open>Inputs for the examples\<close>

text \<open>
  Arithmetic without rounding, on real numbers: Python's results whenever the operands
  and the result are numbers that a float holds exactly (integers of moderate size and
  binary fractions, as in the examples below). It is not the arithmetic of floats in
  general, and only the examples use it.
\<close>

fun exact_add :: "real pyval \<Rightarrow> real pyval \<Rightarrow> exn + real pyval" where
  "exact_add (Num x) (Num y) = Inr (Num (x + y))"
| "exact_add (Str s) (Str t) = Inr (Str (s @ t))"
| "exact_add v w = Inl (Exception ''TypeError'')"

fun exact_truediv :: "real pyval \<Rightarrow> real pyval \<Rightarrow> exn + real pyval" where
  "exact_truediv (Num x) (Num y) =
     (if y = 0 then Inl (Exception ''ZeroDivisionError'') else Inr (Num (x / y)))"
| "exact_truediv v w = Inl (Exception ''TypeError'')"

text \<open>Strings are compared character by character.\<close>

fun str_lt :: "string \<Rightarrow> string \<Rightarrow> bool" where
  "str_lt [] [] = False"
| "str_lt [] (d # ds) = True"
| "str_lt (c # cs) [] = False"
| "str_lt (c # cs) (d # ds) = ((of_char c :: nat) < of_char d \<or> (c = d \<and> str_lt cs ds))"

fun exact_lt :: "real pyval \<Rightarrow> real pyval \<Rightarrow> exn + bool" where
  "exact_lt (Num x) (Num y) = Inr (x < y)"
| "exact_lt (Str s) (Str t) = Inr (str_lt s t)"
| "exact_lt v w = Inl (Exception ''TypeError'')"

definition exact_gt :: "real pyval \<Rightarrow> real pyval \<Rightarrow> exn + bool" where
  "exact_gt v w = exact_lt w v"

fun exact_format_2f :: "real pyval \<Rightarrow> exn option" where
  "exact_format_2f (Num x) = None"
| "exact_format_2f PNone = Some (Exception ''TypeError'')"
| "exact_format_2f (Str s) = Some (Exception ''ValueError'')"

definition exact_arith :: "real arith" where
  "exact_arith =
     \<lparr> py_add = exact_add, py_truediv = exact_truediv, py_gt = exact_gt, py_lt = exact_lt,
       py_eq = (\<lambda>v w. v = w),
       int_zero = 0, int_one = 1, float_one = 1, sentinel = 1000000,
       format_2f = exact_format_2f \<rparr>"

text \<open>
  An analyzer with the thresholds 10, 2, 0.5 and 1.25, all of which a float holds
  exactly, and the default path; and the same without a path, as
  \<^verbatim>\<open>TradeActivityAnalyzer(save_path="")\<close> gives it.
\<close>

definition example_analyzer :: "(real, (real, nat) callback) analyzer" where
  "example_analyzer = new_analyzer 10 2 (1/2) (5/4) True default_save_path"

definition pathless_analyzer :: "(real, (real, nat) callback) analyzer" where
  "pathless_analyzer = new_analyzer 10 2 (1/2) (5/4) True []"

text \<open>Callbacks on a counter: one counts the events, one raises.\<close>

definition counting_callback :: "(real, nat) callback" where
  "counting_callback d n = (None, Suc n)"

definition raising_callback :: "(real, nat) callback" where
  "raising_callback d n = (Some (Exception ''RuntimeError''), n)"

text \<open>A stand-in for \<^verbatim>\<open>json.dumps\<close> in the examples: the reason of the event.\<close>

definition reason_text :: "real dict \<Rightarrow> string" where
  "reason_text d = (case d ''reason'' of Some (Str s) \<Rightarrow> s | _ \<Rightarrow> [])"

text \<open>
  Files: none, with every path free to be opened; the file of the analyzer there
  already, with one line; a directory where the file of the analyzer should be; and a
  path under a directory that is missing.
\<close>

definition empty_files :: filesystem where
  "empty_files = \<lparr> contents = Map.empty, directories = {}, open_error = (\<lambda>path. None) \<rparr>"

definition kept_files :: filesystem where
  "kept_files = empty_files\<lparr> contents := [default_save_path \<mapsto> ''{}'' @ [CHR 0x0A]] \<rparr>"

definition directory_files :: filesystem where
  "directory_files = empty_files\<lparr> directories := {default_save_path} \<rparr>"

definition missing_directory_path :: string where
  "missing_directory_path = ''nodir/x.jsonl''"

definition blocked_files :: filesystem where
  "blocked_files =
     empty_files\<lparr> open_error :=
       (\<lambda>path. if path = missing_directory_path then Some (Exception ''FileNotFoundError'')
                else None) \<rparr>"

definition empty_world :: "(real, nat) world" where
  "empty_world = \<lparr> files = empty_files, effects = [], user = 0 \<rparr>"

text \<open>
  Ten trades of quantity 10 within the window, alternating between buy and sell: 50
  bought, 50 sold.
\<close>

definition balanced_event :: "real dict" where
  "balanced_event = [''ts'' \<mapsto> Num 100, ''buy_volume'' \<mapsto> Num 50, ''sell_volume'' \<mapsto> Num 50]"

text \<open>The event that the analyzer builds for it.\<close>

definition balanced_spike :: "real dict" where
  "balanced_spike =
     spike_data (Num 100) (Num 50) (Num 50) (Num 1) (Num 0) (Num 0) (Num 0)
       ''sell'' ''volume_exceeded''"


definition busy_spike :: "real dict" where
  "busy_spike =
     spike_data (Num 100) (Num 24) (Num 8) (Num 3) (Num 0) (Num 0) (Num 8) ''buy'' ''spike''"




definition negative_spike :: "real dict" where
  "negative_spike =
     spike_data (Num 100) (Num (- 5)) (Num 1) (Num (- 5)) (Num 0) (Num 0) (Num 0)
       ''sell'' ''imbalance''"

text \<open>
  A runner straight from its constructor, without a model, and an order book with both
  sides filled.
\<close>

definition example_runner :: "nat runner" where
  "example_runner = fresh_runner ''btcusdt'' (new_analyzer 10 2 (1/2) (12/10) False default_save_path)"

definition example_orderbook :: orderbook where
  "example_orderbook =
     \<lparr> mid_price = Some 100, imbalance = (1/5, 6, 4),
       near_price_volume = [''near_bid_volume'' \<mapsto> Num 3, ''near_ask_volume'' \<mapsto> Num 2],
       last_update_ts = 50 \<rparr>"

text \<open>Dictionaries with a key that the runner writes itself.\<close>

definition mid_price_aggregate :: pydict where
  "mid_price_aggregate = [''mid_price'' \<mapsto> Num 0]"

definition flagged_aggregate :: pydict where
  "flagged_aggregate = [''activity_spike'' \<mapsto> Num 0]"

text \<open>An activity spike with the timestamp 0.\<close>

definition epoch_spike :: pydict where
  "epoch_spike =
     spike_data (Num 0) (Num 50) (Num 50) (Num 1) (Num 0) (Num 0) (Num 0)
       ''sell'' ''volume_exceeded''"

text \<open>Constructors of the model: one fails to find the file, one is interrupted.\<close>

definition load_missing :: "string \<Rightarrow> exn + nat" where
  "load_missing path = Inl (Exception ''FileNotFoundError'')"

definition load_interrupted :: "string \<Rightarrow> exn + nat" where
  "load_interrupted path = Inl (BaseException ''KeyboardInterrupt'')"

text \<open>Components that stop without an exception, and tasks that still run.\<close>

definition calm_env :: stop_env where
  "calm_env = \<lparr> orderbook_stop = None, trades_stop = None, merger_stop = None,
                 task_done = (\<lambda>t. False) \<rparr>"

section \<open>Properties of the analyzer\<close>

subsection \<open>The detection\<close>

text \<open>When no operation raises, the event is built from the results in this way.\<close>

lemma spike_event_eval:
  assumes "total_volume ar event = Inr tot"
    and "ma_volume ar event = Inr ma"
    and "spike_cond ar a tot ma = Inr spike"
    and "buy_sell_ratio ar (field0 ar event ''buy_volume'') (field0 ar event ''sell_volume'')
           = Inr ratio"
    and "imbalance_cond ar a ratio = Inr imb"
    and "volume_exceeded_cond ar a tot = Inr ve"
    and "py_gt ar ratio (Num (int_one ar)) = Inr is_buy"
  shows "spike_event ar a clock event =
     (if py_eq ar tot (Num (int_zero ar)) \<or> \<not> (spike \<or> imb \<or> ve) then Inr None
      else Inr (Some (spike_data (dict_get event ''ts'' (Num clock))
                        (field0 ar event ''buy_volume'') (field0 ar event ''sell_volume'')
                        ratio
                        (field0 ar event ''avg_price'') (field0 ar event ''trade_count'')
                        ma
                        (if is_buy then ''buy'' else ''sell'')
                        (if spike then ''spike''
                         else if imb then ''imbalance'' else ''volume_exceeded''))))"
  by (simp add: spike_event_def assms)




lemma spike_data_lookup:
  "spike_data now b s r ap tc ma dir rsn ''buy_sell_ratio'' = Some r"
  "spike_data now b s r ap tc ma dir rsn ''direction'' = Some (Str dir)"
  "spike_data now b s r ap tc ma dir rsn ''reason'' = Some (Str rsn)"
  "spike_data now b s r ap tc ma dir rsn ''ts'' = Some now"
  "spike_data now b s r ap tc ma dir rsn ''buy_volume'' = Some b"
  "spike_data now b s r ap tc ma dir rsn ''sell_volume'' = Some s"
  by (simp_all add: spike_data_def)


subsection \<open>The effects\<close>

lemma run_callbacks_files: "files (snd (run_callbacks i cbs d w)) = files w"
  by (induction cbs arbitrary: i w) (auto simp: Let_def split: option.splits)

lemma run_callbacks_raise:
  "fst (cb d (user w)) = Some x \<Longrightarrow>
   run_callbacks i (cb # cbs) d w =
     (Some x, w\<lparr> effects := effects w @ [CallbackCall i d], user := snd (cb d (user w)) \<rparr>)"
  by (simp add: Let_def)

lemma run_callbacks_next:
  "fst (cb d (user w)) = None \<Longrightarrow>
   run_callbacks i (cb # cbs) d w =
     run_callbacks (Suc i) cbs d
       (w\<lparr> effects := effects w @ [CallbackCall i d], user := snd (cb d (user w)) \<rparr>)"
  by (simp add: Let_def)

lemma upt_add_Suc: "[i..<i + Suc k] = i # [Suc i..<Suc i + k]"
  by (simp add: upt_conv_Cons)

text \<open>
  The loop calls the callbacks in the order of the list, each at most once, and stops
  after the first that raises.
\<close>

lemma run_callbacks_effects:
  "\<exists>k. k \<le> length cbs \<and>
     effects (snd (run_callbacks i cbs d w)) = effects w @ map (\<lambda>j. CallbackCall j d) [i..<i + k]
     \<and> (fst (run_callbacks i cbs d w) = None \<longrightarrow> k = length cbs)
     \<and> (fst (run_callbacks i cbs d w) \<noteq> None \<longrightarrow> 0 < k)"
proof (induction cbs arbitrary: i w)
  case Nil
  show ?case by simp
next
  case (Cons cb cbs)
  show ?case
  proof (cases "fst (cb d (user w))")
    case (Some x)
    note raised = run_callbacks_raise[where cb=cb and d=d and w=w, OF Some]
    have "1 \<le> length (cb # cbs)" by simp
    moreover have "effects (snd (run_callbacks i (cb # cbs) d w)) =
        effects w @ map (\<lambda>j. CallbackCall j d) [i..<i + 1]"
      by (simp only: raised) simp
    moreover have "fst (run_callbacks i (cb # cbs) d w) \<noteq> None"
      by (simp only: raised) simp
    ultimately show ?thesis
      by (intro exI[of _ 1]) (auto simp del: run_callbacks.simps)
  next
    case None
    define w2 where "w2 = w\<lparr> effects := effects w @ [CallbackCall i d], user := snd (cb d (user w)) \<rparr>"
    have eq: "run_callbacks i (cb # cbs) d w = run_callbacks (Suc i) cbs d w2"
      unfolding w2_def by (rule run_callbacks_next[where cb=cb and d=d and w=w, OF None])
    have ew2: "effects w2 = effects w @ [CallbackCall i d]"
      by (simp add: w2_def)
    from Cons.IH[of "Suc i" w2] obtain k where k1: "k \<le> length cbs"
      and k2: "effects (snd (run_callbacks (Suc i) cbs d w2)) =
         effects w2 @ map (\<lambda>j. CallbackCall j d) [Suc i..<Suc i + k]"
      and k3: "fst (run_callbacks (Suc i) cbs d w2) = None \<longrightarrow> k = length cbs"
      by (elim exE conjE)
    have "Suc k \<le> length (cb # cbs)" using k1 by simp
    moreover have "effects (snd (run_callbacks i (cb # cbs) d w)) =
        effects w @ map (\<lambda>j. CallbackCall j d) [i..<i + Suc k]"
      by (simp only: eq k2 ew2 upt_add_Suc) simp
    moreover have "fst (run_callbacks i (cb # cbs) d w) = None \<longrightarrow> Suc k = length (cb # cbs)"
      using k3 by (simp only: eq) simp
    ultimately show ?thesis
      by (intro exI[of _ "Suc k"]) (auto simp del: run_callbacks.simps)
  qed
qed

text \<open>The exception of the append, if it raises: that of opening the configured path.\<close>

lemma write_log_fst:
  "fst (write_log dumps a d w) =
     (if save_path a \<noteq> [] then open_write (files w) (save_path a) else None)"
  by (simp add: write_log_def split: option.splits)

lemma write_log_raised:
  "fst (write_log dumps a d w) = Some x \<Longrightarrow> write_log dumps a d w = (Some x, w)"
  by (auto simp: write_log_def split: option.splits if_splits)

lemma write_log_files:
  "fst (write_log dumps a d w) = None \<Longrightarrow>
   files (snd (write_log dumps a d w)) =
     (if save_path a \<noteq> [] then file_append (save_path a) (dumps d @ [CHR 0x0A]) (files w)
      else files w)"
  by (auto simp: write_log_def split: option.splits if_splits)

lemma write_log_effects:
  "fst (write_log dumps a d w) = None \<Longrightarrow>
   effects (snd (write_log dumps a d w)) =
     effects w @ (if save_path a \<noteq> [] then [FileAppend (save_path a) (dumps d @ [CHR 0x0A])] else [])"
  by (auto simp: write_log_def split: option.splits if_splits)

text \<open>When the append raises, the method is left at once.\<close>

lemma emit_raised:
  "fst (write_log dumps a d w) = Some x \<Longrightarrow> emit ar dumps a tot d w = (Some x, w)"
  by (simp add: emit_def write_log_raised)

lemma emit_files:
  "files (snd (emit ar dumps a tot d w)) = files (snd (write_log dumps a d w))"
  by (simp add: emit_def Let_def run_callbacks_files split: option.splits)

lemma emit_fst:
  "fst (write_log dumps a d w) = None \<Longrightarrow>
   fst (emit ar dumps a tot d w) =
     (case fst (run_callbacks 0 (callbacks a) d (snd (write_log dumps a d w))) of
        Some x \<Rightarrow> Some x
      | None \<Rightarrow> if enable_logging a then format_2f ar tot else None)"
  by (simp add: emit_def Let_def split: option.splits)

lemma emit_effects_snd:
  "fst (write_log dumps a d w) = None \<Longrightarrow>
   effects (snd (emit ar dumps a tot d w)) =
     effects (snd (run_callbacks 0 (callbacks a) d (snd (write_log dumps a d w))))
     @ (if fst (emit ar dumps a tot d w) = None \<and> enable_logging a then [LogWarning d] else [])"
  by (simp add: emit_def Let_def split: option.splits)

text \<open>
  All that an emission adds to the effects when the append does not raise: the line,
  when a path is configured; then the calls of the first \<open>k\<close> callbacks; then the
  warning, when logging is enabled and nothing raised. An exception comes from the last
  callback called or from the formatting of the warning.
\<close>

lemma emit_effects:
  assumes "fst (write_log dumps a d w) = None"
  shows "\<exists>k. k \<le> length (callbacks a) \<and>
     effects (snd (emit ar dumps a tot d w)) =
       effects w
       @ (if save_path a \<noteq> [] then [FileAppend (save_path a) (dumps d @ [CHR 0x0A])] else [])
       @ map (\<lambda>j. CallbackCall j d) [0..<k]
       @ (if fst (emit ar dumps a tot d w) = None \<and> enable_logging a then [LogWarning d] else [])
     \<and> (fst (emit ar dumps a tot d w) = None \<longrightarrow> k = length (callbacks a))
     \<and> (fst (emit ar dumps a tot d w) \<noteq> None \<longrightarrow> 0 < k \<or> format_2f ar tot \<noteq> None)"
proof -
  let ?w1 = "snd (write_log dumps a d w)"
  from run_callbacks_effects[of "callbacks a" 0 d ?w1]
  obtain k where k1: "k \<le> length (callbacks a)"
    and k2: "effects (snd (run_callbacks 0 (callbacks a) d ?w1)) =
       effects ?w1 @ map (\<lambda>j. CallbackCall j d) [0..<0 + k]"
    and k3: "fst (run_callbacks 0 (callbacks a) d ?w1) = None \<longrightarrow> k = length (callbacks a)"
    and k4: "fst (run_callbacks 0 (callbacks a) d ?w1) \<noteq> None \<longrightarrow> 0 < k"
    by (elim exE conjE)
  have e: "effects (snd (emit ar dumps a tot d w)) =
       effects w
       @ (if save_path a \<noteq> [] then [FileAppend (save_path a) (dumps d @ [CHR 0x0A])] else [])
       @ map (\<lambda>j. CallbackCall j d) [0..<k]
       @ (if fst (emit ar dumps a tot d w) = None \<and> enable_logging a then [LogWarning d] else [])"
    by (simp only: emit_effects_snd[OF assms] k2 write_log_effects[OF assms]) simp
  have k3': "fst (emit ar dumps a tot d w) = None \<longrightarrow> k = length (callbacks a)"
    using k3 by (simp only: emit_fst[OF assms] split: option.splits) simp
  have k4': "fst (emit ar dumps a tot d w) \<noteq> None \<longrightarrow> 0 < k \<or> format_2f ar tot \<noteq> None"
    using k4 by (simp only: emit_fst[OF assms] split: option.splits) (simp split: if_splits)
  show ?thesis
    by (rule exI[of _ k]) (intro conjI k1 e k3' k4')
qed





lemma appended_simps:
  "appended [] = []"
  "appended [FileAppend p t] = [(p, t)]"
  "appended [LogWarning d] = []"
  by (simp_all add: appended_def)

lemma delivered_simps:
  "delivered [] = []"
  "delivered [FileAppend p t] = []"
  "delivered [LogWarning d] = []"
  by (simp_all add: delivered_def)

lemma new_effects_append: "effects w' = effects w @ xs \<Longrightarrow> new_effects w w' = xs"
  by (simp add: new_effects_def)


lemma process_event_emitted:
  assumes "spike_event ar a clock event = Inr (Some d)"
  shows "\<exists>tot. total_volume ar event = Inr tot
           \<and> process_event ar dumps a clock event w = emit ar dumps a tot d w"
proof (cases "total_volume ar event")
  case (Inl x)
  with assms show ?thesis by (simp add: spike_event_def)
next
  case (Inr tot)
  with assms show ?thesis by (simp add: process_event_def)
qed

lemma process_event_silent:
  "(\<forall>d. spike_event ar a clock event \<noteq> Inr (Some d)) \<Longrightarrow>
   snd (process_event ar dumps a clock event w) = w"
  by (auto simp: process_event_def split: sum.splits option.splits)

lemma process_event_raised:
  assumes "spike_event ar a clock event = Inr (Some d)"
    and "fst (write_log dumps a d w) = Some x"
  shows "process_event ar dumps a clock event w = (Some x, w)"
proof -
  from process_event_emitted[OF assms(1)] obtain tot where
    "process_event ar dumps a clock event w = emit ar dumps a tot d w"
    by blast
  then show ?thesis by (simp add: emit_raised[OF assms(2)])
qed

lemma emit_new_effects:
  assumes "fst (write_log dumps a d w) = None"
  shows "\<exists>k. k \<le> length (callbacks a) \<and>
     new_effects w (snd (emit ar dumps a tot d w)) =
       (if save_path a \<noteq> [] then [FileAppend (save_path a) (dumps d @ [CHR 0x0A])] else [])
       @ map (\<lambda>j. CallbackCall j d) [0..<k]
       @ (if fst (emit ar dumps a tot d w) = None \<and> enable_logging a then [LogWarning d] else [])
     \<and> (fst (emit ar dumps a tot d w) = None \<longrightarrow> k = length (callbacks a))
     \<and> (fst (emit ar dumps a tot d w) \<noteq> None \<longrightarrow> 0 < k \<or> format_2f ar tot \<noteq> None)"
proof -
  from emit_effects[OF assms, of ar tot] obtain k where k1: "k \<le> length (callbacks a)"
    and k2: "effects (snd (emit ar dumps a tot d w)) =
       effects w
       @ (if save_path a \<noteq> [] then [FileAppend (save_path a) (dumps d @ [CHR 0x0A])] else [])
       @ map (\<lambda>j. CallbackCall j d) [0..<k]
       @ (if fst (emit ar dumps a tot d w) = None \<and> enable_logging a then [LogWarning d] else [])"
    and k3: "fst (emit ar dumps a tot d w) = None \<longrightarrow> k = length (callbacks a)"
    and k4: "fst (emit ar dumps a tot d w) \<noteq> None \<longrightarrow> 0 < k \<or> format_2f ar tot \<noteq> None"
    by (elim exE conjE)
  note n = new_effects_append[OF k2]
  show ?thesis
    by (rule exI[of _ k]) (intro conjI k1 n k3 k4)
qed




lemma distinct_calls: "distinct (map fst (map (\<lambda>i. (i, d)) [0..<k]))"
  by (simp add: comp_def)


lemma process_event_files:
  "files (snd (process_event ar dumps a clock event w)) =
     (case spike_event ar a clock event of
        Inr (Some d) \<Rightarrow> files (snd (write_log dumps a d w))
      | _ \<Rightarrow> files w)"
proof (cases "\<exists>d. spike_event ar a clock event = Inr (Some d)")
  case True
  then obtain d where d: "spike_event ar a clock event = Inr (Some d)" ..
  from process_event_emitted[OF d, of dumps w] obtain tot where
    p: "process_event ar dumps a clock event w = emit ar dumps a tot d w"
    by blast
  show ?thesis by (simp add: p d emit_files)
next
  case False
  then have "snd (process_event ar dumps a clock event w) = w"
    by (intro process_event_silent) simp
  with False show ?thesis by (auto split: sum.splits option.splits)
qed

lemma write_log_contents:
  "contents (files (snd (write_log dumps a d w))) = contents (files w)
   \<or> (save_path a \<noteq> [] \<and> fst (write_log dumps a d w) = None
      \<and> contents (files (snd (write_log dumps a d w))) =
          (contents (files w))(save_path a \<mapsto>
             (case contents (files w) (save_path a) of None \<Rightarrow> [] | Some old \<Rightarrow> old)
             @ dumps d @ [CHR 0x0A]))"
  by (auto simp: write_log_def file_append_def split: option.splits)

lemma write_log_frame:
  "directories (files (snd (write_log dumps a d w))) = directories (files w)"
  "open_error (files (snd (write_log dumps a d w))) = open_error (files w)"
  by (auto simp: write_log_def file_append_def split: option.splits)

lemma process_event_one_append:
  "contents (files (snd (process_event ar dumps a clock event w))) = contents (files w)
   \<or> (\<exists>d. spike_event ar a clock event = Inr (Some d) \<and> save_path a \<noteq> []
          \<and> fst (write_log dumps a d w) = None
          \<and> contents (files (snd (process_event ar dumps a clock event w))) =
              (contents (files w))(save_path a \<mapsto>
                 (case contents (files w) (save_path a) of None \<Rightarrow> [] | Some old \<Rightarrow> old)
                 @ dumps d @ [CHR 0x0A]))"
proof (cases "\<exists>d. spike_event ar a clock event = Inr (Some d)")
  case True
  then obtain d where d: "spike_event ar a clock event = Inr (Some d)" ..
  have f: "files (snd (process_event ar dumps a clock event w)) = files (snd (write_log dumps a d w))"
    by (simp add: process_event_files d)
  from write_log_contents[of dumps a d w] show ?thesis
    unfolding f using d by blast
next
  case False
  then have "snd (process_event ar dumps a clock event w) = w"
    by (intro process_event_silent) simp
  then show ?thesis by simp
qed

lemma process_event_frame:
  "directories (files (snd (process_event ar dumps a clock event w))) = directories (files w)"
  "open_error (files (snd (process_event ar dumps a clock event w))) = open_error (files w)"
  by (auto simp: process_event_files write_log_frame split: sum.splits option.splits)

lemma process_event_keeps_prefix:
  assumes "contents (files w) p = Some old"
  shows "\<exists>added. contents (files (snd (process_event ar dumps a clock event w))) p
           = Some (old @ added)"
  using process_event_one_append[of ar dumps a clock event w] assms
  by (auto split: option.splits)

lemma process_all_keeps_prefix:
  "contents (files w) p = Some old \<Longrightarrow>
   \<exists>added. contents (files (process_all ar dumps a ces w)) p = Some (old @ added)"
proof (induction ces arbitrary: w old)
  case Nil
  then show ?case by simp
next
  case (Cons ce ces)
  from process_event_keeps_prefix[OF Cons.prems, of ar dumps a "fst ce" "snd ce"]
  obtain t where
    t: "contents (files (snd (process_event ar dumps a (fst ce) (snd ce) w))) p = Some (old @ t)"
    by blast
  from Cons.IH[OF t] obtain added where
    "contents (files (process_all ar dumps a ces (snd (process_event ar dumps a (fst ce) (snd ce) w)))) p
       = Some ((old @ t) @ added)"
    by blast
  then have "contents (files (process_all ar dumps a (ce # ces) w)) p = Some (old @ (t @ added))"
    by simp
  then show ?case by blast
qed

lemma analyzer_init_cases:
  "sp \<noteq> [] \<Longrightarrow> \<not> path_exists fs sp \<Longrightarrow> open_write fs sp = None \<Longrightarrow>
   analyzer_init vt hi lo sm el sp fs =
     (Inr (new_analyzer vt hi lo sm el sp), fs\<lparr> contents := (contents fs)(sp \<mapsto> []) \<rparr>)"
  "sp \<noteq> [] \<Longrightarrow> \<not> path_exists fs sp \<Longrightarrow> open_write fs sp = Some x \<Longrightarrow>
   analyzer_init vt hi lo sm el sp fs = (Inl x, fs)"
  "path_exists fs sp \<or> sp = [] \<Longrightarrow>
   analyzer_init vt hi lo sm el sp fs = (Inr (new_analyzer vt hi lo sm el sp), fs)"
  by (auto simp: analyzer_init_def)

lemma analyzer_init_frame:
  "p \<noteq> sp \<Longrightarrow> contents (snd (analyzer_init vt hi lo sm el sp fs)) p = contents fs p"
  "directories (snd (analyzer_init vt hi lo sm el sp fs)) = directories fs"
  "open_error (snd (analyzer_init vt hi lo sm el sp fs)) = open_error fs"
  by (auto simp: analyzer_init_def split: option.splits)

subsection \<open>Facts for the examples\<close>

lemma exact_arith_fields:
  "py_add exact_arith = exact_add"
  "py_truediv exact_arith = exact_truediv"
  "py_gt exact_arith = exact_gt"
  "py_lt exact_arith = exact_lt"
  "py_eq exact_arith = (\<lambda>v w. v = w)"
  "int_zero exact_arith = 0"
  "int_one exact_arith = 1"
  "float_one exact_arith = 1"
  "sentinel exact_arith = 1000000"
  "format_2f exact_arith = exact_format_2f"
  by (simp_all add: exact_arith_def)


text \<open>The detection looks at the four thresholds of the analyzer only.\<close>

lemma spike_event_thresholds:
  assumes "volume_threshold a = volume_threshold b"
    and "imbalance_ratio_high a = imbalance_ratio_high b"
    and "imbalance_ratio_low a = imbalance_ratio_low b"
    and "spike_multiplier a = spike_multiplier b"
  shows "spike_event ar a clock event = spike_event ar b clock event"
proof -
  have c: "spike_cond ar a = spike_cond ar b" "imbalance_cond ar a = imbalance_cond ar b"
    "volume_exceeded_cond ar a = volume_exceeded_cond ar b"
    unfolding fun_eq_iff spike_cond_def imbalance_cond_def volume_exceeded_cond_def assms
    by simp_all
  show ?thesis
    unfolding spike_event_def c by (rule refl)
qed

lemma spike_event_on_activity:
  "spike_event ar (on_activity cb a) clock event = spike_event ar a clock event"
  by (rule spike_event_thresholds) (simp_all add: on_activity_def)

lemma example_analyzer_fields:
  "volume_threshold example_analyzer = 10"
  "imbalance_ratio_high example_analyzer = 2"
  "imbalance_ratio_low example_analyzer = 1/2"
  "spike_multiplier example_analyzer = 5/4"
  "enable_logging example_analyzer = True"
  "save_path example_analyzer = default_save_path"
  "callbacks example_analyzer = []"
  by (simp_all add: example_analyzer_def new_analyzer_def)

lemma balanced_fields:
  "field0 exact_arith balanced_event ''buy_volume'' = Num 50"
  "field0 exact_arith balanced_event ''sell_volume'' = Num 50"
  "field0 exact_arith balanced_event ''avg_price'' = Num 0"
  "field0 exact_arith balanced_event ''trade_count'' = Num 0"
  "dict_get balanced_event ''ts'' (Num clock) = Num 100"
  "total_volume exact_arith balanced_event = Inr (Num 100)"
  "ma_volume exact_arith balanced_event = Inr (Num 0)"
  by (simp_all add: total_volume_def ma_volume_def field0_def dict_get_def balanced_event_def
      exact_arith_fields)

lemma balanced_conditions:
  "spike_cond exact_arith example_analyzer (Num 100) (Num 0) = Inr False"
  "buy_sell_ratio exact_arith (Num 50) (Num 50) = Inr (Num 1)"
  "imbalance_cond exact_arith example_analyzer (Num 1) = Inr False"
  "volume_exceeded_cond exact_arith example_analyzer (Num 100) = Inr True"
  "py_gt exact_arith (Num 1) (Num (int_one exact_arith)) = Inr False"
  by (simp_all add: spike_cond_def buy_sell_ratio_def imbalance_cond_def volume_exceeded_cond_def
      example_analyzer_fields exact_arith_fields exact_gt_def)

lemma balanced_spike_event:
  "spike_event exact_arith example_analyzer 0 balanced_event = Inr (Some balanced_spike)"
proof -
  note e = spike_event_eval[where ar=exact_arith and a=example_analyzer
      and event=balanced_event and clock=0,
      OF balanced_fields(6) balanced_fields(7) balanced_conditions(1)]
  have r: "buy_sell_ratio exact_arith (field0 exact_arith balanced_event ''buy_volume'')
             (field0 exact_arith balanced_event ''sell_volume'') = Inr (Num 1)"
    by (simp only: balanced_fields balanced_conditions)
  show ?thesis
    unfolding e[OF r balanced_conditions(3) balanced_conditions(4) balanced_conditions(5)]
    by (simp add: balanced_fields balanced_spike_def exact_arith_fields)
qed










lemma reason_text_spike_data:
  "reason_text (spike_data now b s r ap tc ma dir rsn) = rsn"
  by (simp add: reason_text_def spike_data_lookup)

lemma reason_text_examples:
  "reason_text balanced_spike = ''volume_exceeded''"
  "reason_text busy_spike = ''spike''"
  "reason_text negative_spike = ''imbalance''"
  by (simp_all add: balanced_spike_def busy_spike_def negative_spike_def reason_text_spike_data)

lemma default_save_path_nonempty: "default_save_path \<noteq> []"
  by (simp add: default_save_path_def)

lemma counting_analyzer_fields:
  "save_path (on_activity counting_callback example_analyzer) = default_save_path"
  "callbacks (on_activity counting_callback example_analyzer) = [counting_callback]"
  "enable_logging (on_activity counting_callback example_analyzer) = True"
  by (simp_all add: on_activity_def example_analyzer_fields)

lemma raising_analyzer_fields:
  "save_path (on_activity raising_callback example_analyzer) = default_save_path"
  "callbacks (on_activity raising_callback example_analyzer) = [raising_callback]"
  "enable_logging (on_activity raising_callback example_analyzer) = True"
  by (simp_all add: on_activity_def example_analyzer_fields)

lemma pathless_analyzer_fields:
  "save_path (on_activity counting_callback pathless_analyzer) = []"
  "callbacks (on_activity counting_callback pathless_analyzer) = [counting_callback]"
  "enable_logging (on_activity counting_callback pathless_analyzer) = True"
  by (simp_all add: on_activity_def pathless_analyzer_def new_analyzer_def)

lemma pathless_spike_event:
  "spike_event exact_arith (on_activity counting_callback pathless_analyzer) 0 balanced_event
     = Inr (Some balanced_spike)"
proof -
  have "spike_event exact_arith (on_activity counting_callback pathless_analyzer) 0 balanced_event
      = spike_event exact_arith example_analyzer 0 balanced_event"
    by (rule spike_event_thresholds)
       (simp_all add: on_activity_def pathless_analyzer_def example_analyzer_def new_analyzer_def)
  then show ?thesis by (simp only: balanced_spike_event)
qed

lemma empty_files_fields:
  "contents empty_files = Map.empty"
  "directories empty_files = {}"
  "open_error empty_files = (\<lambda>path. None)"
  "open_write empty_files path = None"
  "\<not> path_exists empty_files path"
  by (simp_all add: empty_files_def open_write_def path_exists_def)

lemma empty_world_fields:
  "files empty_world = empty_files"
  "effects empty_world = []"
  "user empty_world = 0"
  by (simp_all add: empty_world_def)

lemma kept_files_fields:
  "contents kept_files default_save_path = Some (''{}'' @ [CHR 0x0A])"
  "open_write kept_files path = None"
  "path_exists kept_files default_save_path"
  by (simp_all add: kept_files_def empty_files_def open_write_def path_exists_def)

lemma directory_files_fields:
  "contents directory_files = Map.empty"
  "path_exists directory_files default_save_path"
  "open_write directory_files default_save_path = Some (Exception ''IsADirectoryError'')"
  by (simp_all add: directory_files_def empty_files_def open_write_def path_exists_def)

lemma blocked_files_fields:
  "contents blocked_files = Map.empty"
  "missing_directory_path \<noteq> []"
  "\<not> path_exists blocked_files missing_directory_path"
  "open_write blocked_files missing_directory_path = Some (Exception ''FileNotFoundError'')"
  by (simp_all add: blocked_files_def empty_files_def open_write_def path_exists_def
      missing_directory_path_def)

section \<open>The claims about the analyzer\<close>








text \<open>
  Nor do the conditions suffice. Where the path of the analyzer is a directory, the
  constructor finds the path and leaves it, and the balanced aggregate, for which the
  volume condition is true, ends in the exception of \<^verbatim>\<open>open\<close>: no line, no callback.
\<close>

lemma blocked_log_nothing_emitted:
  "analyzer_init 10 2 (1/2) (5/4) True default_save_path directory_files
     = (Inr example_analyzer, directory_files)
   \<and> spike_event exact_arith (on_activity counting_callback example_analyzer) 0 balanced_event
       = Inr (Some balanced_spike)
   \<and> process_event exact_arith reason_text (on_activity counting_callback example_analyzer) 0
       balanced_event (empty_world\<lparr> files := directory_files \<rparr>)
      = (Some (Exception ''IsADirectoryError''), empty_world\<lparr> files := directory_files \<rparr>)"
proof -
  let ?a = "on_activity counting_callback example_analyzer"
  let ?w = "empty_world\<lparr> files := directory_files \<rparr>"
  have i: "analyzer_init 10 2 (1/2) (5/4) True default_save_path directory_files
     = (Inr example_analyzer, directory_files)"
    by (simp add: analyzer_init_cases(3) directory_files_fields example_analyzer_def)
  have e: "spike_event exact_arith ?a 0 balanced_event = Inr (Some balanced_spike)"
    by (simp only: spike_event_on_activity balanced_spike_event)
  have l: "fst (write_log reason_text ?a balanced_spike ?w) = Some (Exception ''IsADirectoryError'')"
    by (simp add: write_log_fst counting_analyzer_fields default_save_path_nonempty
        directory_files_fields)
  from i e process_event_raised[OF e l] show ?thesis by simp
qed

text \<open>
  C2, as amended. For every ActivitySpikeEvent built by an analyzer with a path
  configured: when opening the file raises, the exception leaves the method and no
  callback is called; otherwise the line of the event (its JSON text and a newline) is
  appended to the file before any callback is called: it is the first thing the call
  does, the calls of the callbacks follow it, and the file holds the line when the
  method is left, also when a callback raised. An exception after the append comes from
  a callback that was called or from the formatting of the warning.
\<close>

theorem log_written_before_callbacks:
  assumes "spike_event ar a clock event = Inr (Some d)" and "save_path a \<noteq> []"
  shows "(\<forall>x. open_write (files w) (save_path a) = Some x \<longrightarrow>
            process_event ar dumps a clock event w = (Some x, w))
       \<and> (open_write (files w) (save_path a) = None \<longrightarrow>
            (\<exists>k rest. k \<le> length (callbacks a) \<and>
               new_effects w (snd (process_event ar dumps a clock event w)) =
                 FileAppend (save_path a) (dumps d @ [CHR 0x0A])
                   # map (\<lambda>i. CallbackCall i d) [0..<k] @ rest
               \<and> appended rest = [] \<and> delivered rest = []
               \<and> (fst (process_event ar dumps a clock event w) \<noteq> None \<longrightarrow>
                    rest = []
                    \<and> (0 < k \<or> (\<exists>tot. total_volume ar event = Inr tot
                                       \<and> format_2f ar tot \<noteq> None))))
            \<and> contents (files (snd (process_event ar dumps a clock event w))) (save_path a) =
                Some ((case contents (files w) (save_path a) of None \<Rightarrow> [] | Some old \<Rightarrow> old)
                      @ dumps d @ [CHR 0x0A]))"
proof (intro conjI allI impI)
  fix x assume "open_write (files w) (save_path a) = Some x"
  then have "fst (write_log dumps a d w) = Some x"
    using assms(2) by (simp add: write_log_fst)
  then show "process_event ar dumps a clock event w = (Some x, w)"
    by (rule process_event_raised[OF assms(1)])
next
  assume o: "open_write (files w) (save_path a) = None"
  then have n: "fst (write_log dumps a d w) = None"
    by (simp add: write_log_fst)
  from process_event_emitted[OF assms(1), of dumps w] obtain tot where
    t: "total_volume ar event = Inr tot"
    and p: "process_event ar dumps a clock event w = emit ar dumps a tot d w"
    by blast
  from emit_new_effects[OF n, of ar tot] obtain k where k1: "k \<le> length (callbacks a)"
    and k2: "new_effects w (snd (emit ar dumps a tot d w)) =
       (if save_path a \<noteq> [] then [FileAppend (save_path a) (dumps d @ [CHR 0x0A])] else [])
       @ map (\<lambda>j. CallbackCall j d) [0..<k]
       @ (if fst (emit ar dumps a tot d w) = None \<and> enable_logging a then [LogWarning d] else [])"
    and k4: "fst (emit ar dumps a tot d w) \<noteq> None \<longrightarrow> 0 < k \<or> format_2f ar tot \<noteq> None"
    by (elim exE conjE)
  let ?rest = "if fst (emit ar dumps a tot d w) = None \<and> enable_logging a
               then [LogWarning d] else []"
  have e: "new_effects w (snd (process_event ar dumps a clock event w)) =
             FileAppend (save_path a) (dumps d @ [CHR 0x0A])
               # map (\<lambda>i. CallbackCall i d) [0..<k] @ ?rest"
    unfolding p k2 using assms(2) by simp
  have r: "appended ?rest = []" "delivered ?rest = []"
    by (simp_all add: appended_simps delivered_simps)
  have x: "fst (process_event ar dumps a clock event w) \<noteq> None \<longrightarrow>
             ?rest = []
             \<and> (0 < k \<or> (\<exists>tot. total_volume ar event = Inr tot \<and> format_2f ar tot \<noteq> None))"
    unfolding p using k4 t by auto
  show "\<exists>k rest. k \<le> length (callbacks a) \<and>
           new_effects w (snd (process_event ar dumps a clock event w)) =
             FileAppend (save_path a) (dumps d @ [CHR 0x0A])
               # map (\<lambda>i. CallbackCall i d) [0..<k] @ rest
           \<and> appended rest = [] \<and> delivered rest = []
           \<and> (fst (process_event ar dumps a clock event w) \<noteq> None \<longrightarrow>
                rest = []
                \<and> (0 < k \<or> (\<exists>tot. total_volume ar event = Inr tot
                                   \<and> format_2f ar tot \<noteq> None)))"
    by (rule exI[of _ k], rule exI[of _ ?rest]) (intro conjI k1 e r x)
  show "contents (files (snd (process_event ar dumps a clock event w))) (save_path a) =
          Some ((case contents (files w) (save_path a) of None \<Rightarrow> [] | Some old \<Rightarrow> old)
                @ dumps d @ [CHR 0x0A])"
    using assms
    by (simp add: process_event_files write_log_files[OF n] file_append_def)
qed

text \<open>A callback that raises: the exception leaves the method, and the line is in the file.\<close>

theorem log_written_before_callbacks_witness:
  "spike_event exact_arith (on_activity raising_callback example_analyzer) 0 balanced_event
     = Inr (Some balanced_spike)
   \<and> open_write (files empty_world) (save_path (on_activity raising_callback example_analyzer))
       = None
   \<and> fst (process_event exact_arith reason_text (on_activity raising_callback example_analyzer) 0
          balanced_event empty_world) = Some (Exception ''RuntimeError'')
   \<and> contents (files (snd (process_event exact_arith reason_text
          (on_activity raising_callback example_analyzer) 0 balanced_event empty_world)))
        default_save_path
      = Some (''volume_exceeded'' @ [CHR 0x0A])"
proof -
  let ?a = "on_activity raising_callback example_analyzer"
  have e: "spike_event exact_arith ?a 0 balanced_event = Inr (Some balanced_spike)"
    by (simp only: spike_event_on_activity balanced_spike_event)
  have p: "save_path ?a \<noteq> []"
    by (simp add: raising_analyzer_fields default_save_path_nonempty)
  have o: "open_write (files empty_world) (save_path ?a) = None"
    by (simp add: empty_world_fields empty_files_fields)
  have x: "fst (process_event exact_arith reason_text ?a 0 balanced_event empty_world)
      = Some (Exception ''RuntimeError'')"
    by (simp add: process_event_def e balanced_fields emit_def write_log_def
        raising_analyzer_fields default_save_path_nonempty empty_world_fields
        empty_files_fields raising_callback_def Let_def)
  from log_written_before_callbacks[OF e p, of empty_world reason_text] o
  have "contents (files (snd (process_event exact_arith reason_text ?a 0 balanced_event
          empty_world))) default_save_path
      = Some (''volume_exceeded'' @ [CHR 0x0A])"
    by (simp add: raising_analyzer_fields empty_world_fields empty_files_fields
        reason_text_examples)
  with e o x show ?thesis by simp
qed

text \<open>
  The claim as stated speaks of every emitted event. The append is guarded by
  \<^verbatim>\<open>if self.save_path:\<close>; an analyzer built with an empty path hands the event to
  its callback and writes nothing.
\<close>

theorem callback_without_log_counterexample:
  "spike_event exact_arith (on_activity counting_callback pathless_analyzer) 0 balanced_event
     = Inr (Some balanced_spike)
   \<and> new_effects empty_world
        (snd (process_event exact_arith reason_text
               (on_activity counting_callback pathless_analyzer) 0 balanced_event empty_world))
      = [CallbackCall 0 balanced_spike, LogWarning balanced_spike]
   \<and> contents (files (snd (process_event exact_arith reason_text
               (on_activity counting_callback pathless_analyzer) 0 balanced_event empty_world)))
      = Map.empty"
proof -
  let ?a = "on_activity counting_callback pathless_analyzer"
  note e = pathless_spike_event
  have n: "new_effects empty_world
        (snd (process_event exact_arith reason_text ?a 0 balanced_event empty_world))
      = [CallbackCall 0 balanced_spike, LogWarning balanced_spike]"
    by (simp add: process_event_def e balanced_fields emit_def write_log_def
        pathless_analyzer_fields counting_callback_def Let_def new_effects_def
        empty_world_fields exact_arith_fields)
  have f: "contents (files (snd (process_event exact_arith reason_text ?a 0 balanced_event
             empty_world))) = Map.empty"
    by (simp add: process_event_files e write_log_def pathless_analyzer_fields
        empty_world_fields empty_files_fields)
  from e n f show ?thesis by simp
qed

text \<open>
  C9, as amended. When a path is configured, nothing exists there and the path can be
  opened for writing, the constructor creates the file empty; when opening it raises,
  the exception leaves the constructor and no file is made. A path that exists keeps its
  content; without a path the files stay as they are; and no other file is touched.
  Every later write of the analyzer is an append of one record and a newline to that
  file: a call of \<^verbatim>\<open>process_event\<close> leaves the contents of the files alone or
  appends one such line, and over any run of calls the content a file had stays at its
  front.
\<close>

theorem audit_log_append_only:
  "(sp \<noteq> [] \<and> \<not> path_exists fs sp \<and> open_write fs sp = None \<longrightarrow>
      fst (analyzer_init vt hi lo sm el sp fs) = Inr (new_analyzer vt hi lo sm el sp :: ('n, 'c) analyzer)
      \<and> contents (snd (analyzer_init vt hi lo sm el sp fs
                         :: (exn + ('n, 'c) analyzer) \<times> filesystem)) sp = Some [])
   \<and> (\<forall>x. sp \<noteq> [] \<and> \<not> path_exists fs sp \<and> open_write fs sp = Some x \<longrightarrow>
      (analyzer_init vt hi lo sm el sp fs :: (exn + ('n, 'c) analyzer) \<times> filesystem)
        = (Inl x, fs))
   \<and> (path_exists fs sp \<or> sp = [] \<longrightarrow>
      analyzer_init vt hi lo sm el sp fs = (Inr (new_analyzer vt hi lo sm el sp :: ('n, 'c) analyzer), fs))
   \<and> (\<forall>p. p \<noteq> sp \<longrightarrow>
      contents (snd (analyzer_init vt hi lo sm el sp fs
                       :: (exn + ('n, 'c) analyzer) \<times> filesystem)) p = contents fs p)
   \<and> (contents (files (snd (process_event ar dumps a clock event w))) = contents (files w)
      \<or> (\<exists>d. spike_event ar a clock event = Inr (Some d) \<and> save_path a \<noteq> []
            \<and> open_write (files w) (save_path a) = None
            \<and> contents (files (snd (process_event ar dumps a clock event w))) =
                (contents (files w))(save_path a \<mapsto>
                   (case contents (files w) (save_path a) of None \<Rightarrow> [] | Some old \<Rightarrow> old)
                   @ dumps d @ [CHR 0x0A])))
   \<and> (\<forall>p old. contents (files w) p = Some old \<longrightarrow>
        (\<exists>added. contents (files (process_all ar dumps a ces w)) p = Some (old @ added)))"
proof (intro conjI allI impI)
  from process_event_one_append[of ar dumps a clock event w]
  show "contents (files (snd (process_event ar dumps a clock event w))) = contents (files w)
      \<or> (\<exists>d. spike_event ar a clock event = Inr (Some d) \<and> save_path a \<noteq> []
            \<and> open_write (files w) (save_path a) = None
            \<and> contents (files (snd (process_event ar dumps a clock event w))) =
                (contents (files w))(save_path a \<mapsto>
                   (case contents (files w) (save_path a) of None \<Rightarrow> [] | Some old \<Rightarrow> old)
                   @ dumps d @ [CHR 0x0A]))"
    by (auto simp: write_log_fst)
next
  fix p old assume "contents (files w) p = Some old"
  then show "\<exists>added. contents (files (process_all ar dumps a ces w)) p = Some (old @ added)"
    by (rule process_all_keeps_prefix)
qed (simp_all add: analyzer_init_cases analyzer_init_frame)

text \<open>
  Without a file the constructor makes it, empty. A file with one line: the constructor
  leaves it, and the balanced aggregate adds its line behind the old one.
\<close>

theorem audit_log_append_only_witness:
  "contents (snd (analyzer_init 10 2 (1/2) (5/4) True default_save_path empty_files
                    :: (exn + (real, (real, nat) callback) analyzer) \<times> filesystem))
      default_save_path = Some []
   \<and> contents kept_files default_save_path = Some (''{}'' @ [CHR 0x0A])
   \<and> analyzer_init 10 2 (1/2) (5/4) True default_save_path kept_files
       = (Inr example_analyzer, kept_files)
   \<and> contents (files (process_all exact_arith reason_text example_analyzer [(0, balanced_event)]
              (empty_world\<lparr> files := kept_files \<rparr>))) default_save_path
      = Some (''{}'' @ [CHR 0x0A] @ ''volume_exceeded'' @ [CHR 0x0A])"
proof -
  let ?w = "empty_world\<lparr> files := kept_files \<rparr>"
  have c: "contents (snd (analyzer_init 10 2 (1/2) (5/4) True default_save_path empty_files
                    :: (exn + (real, (real, nat) callback) analyzer) \<times> filesystem))
      default_save_path = Some []"
    by (rule audit_log_append_only[THEN conjunct1, THEN mp, THEN conjunct2])
       (simp add: default_save_path_nonempty empty_files_fields)
  have i: "analyzer_init 10 2 (1/2) (5/4) True default_save_path kept_files
       = (Inr example_analyzer, kept_files)"
    unfolding example_analyzer_def
    by (rule audit_log_append_only[THEN conjunct2, THEN conjunct2, THEN conjunct1, THEN mp])
       (simp add: kept_files_fields)
  have "contents (files (process_all exact_arith reason_text example_analyzer
              [(0, balanced_event)] ?w)) default_save_path
      = Some (''{}'' @ [CHR 0x0A] @ ''volume_exceeded'' @ [CHR 0x0A])"
    by (simp add: process_event_files balanced_spike_event write_log_def
        example_analyzer_fields default_save_path_nonempty file_append_def kept_files_fields
        reason_text_examples)
  with c i kept_files_fields(1) show ?thesis by blast
qed

text \<open>
  The claim as stated has the constructor create the file whenever a path is configured
  and the file is missing. Under a directory that does not exist \<^verbatim>\<open>open\<close> raises
  \<^verbatim>\<open>FileNotFoundError\<close>: the constructor is left by the exception and there is no file.
\<close>

theorem missing_directory_counterexample:
  "missing_directory_path \<noteq> []
   \<and> \<not> path_exists blocked_files missing_directory_path
   \<and> (analyzer_init 10 2 (1/2) (5/4) True missing_directory_path blocked_files
        :: (exn + (real, (real, nat) callback) analyzer) \<times> filesystem)
       = (Inl (Exception ''FileNotFoundError''), blocked_files)
   \<and> contents blocked_files missing_directory_path = None"
  by (simp add: analyzer_init_cases(2) blocked_files_fields)

section \<open>Properties of the runner\<close>

lemma orderbook_event_contains: "agg \<subseteq>\<^sub>m orderbook_event ob mp feature agg"
  by (simp add: orderbook_event_def map_le_def map_add_dom_app_simps)

lemma orderbook_event_agg_key:
  "agg k = Some v \<Longrightarrow> orderbook_event ob mp feature agg k = Some v"
  by (simp add: orderbook_event_def)

lemma orderbook_event_other_key:
  "agg k = None \<Longrightarrow> near_price_volume ob k = None \<Longrightarrow>
   orderbook_event ob mp feature agg k =
     [''ts'' \<mapsto> Num (last_update_ts ob),
      ''mid_price'' \<mapsto> Num mp,
      ''imbalance'' \<mapsto> Num (fst (imbalance ob)),
      ''bid_volume'' \<mapsto> Num (fst (snd (imbalance ob))),
      ''ask_volume'' \<mapsto> Num (snd (snd (imbalance ob))),
      ''activity_spike'' \<mapsto> Num feature] k"
  by (simp add: orderbook_event_def map_add_def)

text \<open>What one update of the order book hands to the merger.\<close>

lemma handle_orderbook_update_added:
  "merger_added (snd (handle_orderbook_update now ob r)) = merger_added r
   \<or> (\<exists>mp feature. mid_price ob = Some mp \<and> mp \<noteq> 0 \<and>
         merger_added (snd (handle_orderbook_update now ob r)) =
           merger_added r @ [orderbook_event ob mp feature (latest_trade_agg r)])"
  by (auto simp: handle_orderbook_update_def add_orderbook_def split: option.splits sum.splits)

lemma handle_orderbook_update_agg:
  "latest_trade_agg (snd (handle_orderbook_update now ob r)) = latest_trade_agg r"
  by (auto simp: handle_orderbook_update_def add_orderbook_def split: option.splits sum.splits)

lemma stop_fields:
  "latest_trade_agg (snd (snd (stop env r))) = latest_trade_agg r"
  "merger_added (snd (snd (stop env r))) = merger_added r"
  "model_runner (snd (snd (stop env r))) = model_runner r"
  "merger_on_merge (snd (snd (stop env r))) = merger_on_merge r"
  "predicted (snd (snd (stop env r))) = predicted r"
  "last_activity_spike_ts (snd (snd (stop env r))) = last_activity_spike_ts r"
  by (simp_all add: stop_def Let_def split: option.splits)

lemma setup_callbacks_fields:
  "latest_trade_agg (setup_callbacks r) = latest_trade_agg r"
  "merger_added (setup_callbacks r) = merger_added r"
  "model_runner (setup_callbacks r) = model_runner r"
  "predicted (setup_callbacks r) = predicted r"
  "last_activity_spike_ts (setup_callbacks r) = last_activity_spike_ts r"
  "merger_on_merge (setup_callbacks r) =
     (if model_runner r \<noteq> None then merger_on_merge r @ [HandleInference] else merger_on_merge r)"
  by (simp_all add: setup_callbacks_def register_def)

lemma run_start_fields:
  "latest_trade_agg (run_start r) = latest_trade_agg r"
  "merger_added (run_start r) = merger_added r"
  "model_runner (run_start r) = model_runner r"
  "predicted (run_start r) = predicted r"
  "last_activity_spike_ts (run_start r) = last_activity_spike_ts r"
  by (simp_all add: run_start_def setup_callbacks_fields)

lemma handle_inference_fields:
  "latest_trade_agg (snd (handle_inference predict mr r)) = latest_trade_agg r"
  "merger_added (snd (handle_inference predict mr r)) = merger_added r"
  "model_runner (snd (handle_inference predict mr r)) = model_runner r"
  "merger_on_merge (snd (handle_inference predict mr r)) = merger_on_merge r"
  "last_activity_spike_ts (snd (handle_inference predict mr r)) = last_activity_spike_ts r"
  by (simp_all add: handle_inference_def Let_def split: option.splits)

lemma handle_activity_spike_fields:
  "latest_trade_agg (handle_activity_spike d r) = latest_trade_agg r"
  "merger_added (handle_activity_spike d r) = merger_added r"
  "model_runner (handle_activity_spike d r) = model_runner r"
  "merger_on_merge (handle_activity_spike d r) = merger_on_merge r"
  "predicted (handle_activity_spike d r) = predicted r"
  by (simp_all add: handle_activity_spike_def)

text \<open>A call that is not \<^verbatim>\<open>_handle_trade_aggregate\<close> keeps the cached aggregate.\<close>

lemma step_keeps_aggregate:
  "\<not> is_trade_aggregate c \<Longrightarrow> latest_trade_agg (step c r) = latest_trade_agg r"
  by (cases c)
     (simp_all add: handle_orderbook_update_agg stop_fields setup_callbacks_fields
        run_start_fields handle_inference_fields handle_activity_spike_fields)

lemma step_added:
  "\<not> is_trade_aggregate c \<Longrightarrow>
   \<exists>ys. merger_added (step c r) = merger_added r @ ys \<and> (\<forall>ev\<in>set ys. latest_trade_agg r \<subseteq>\<^sub>m ev)"
proof (cases c)
  case (CallOrderbookUpdate now ob)
  from handle_orderbook_update_added[of now ob r] show ?thesis
  proof
    assume "merger_added (snd (handle_orderbook_update now ob r)) = merger_added r"
    then show ?thesis using CallOrderbookUpdate by simp
  next
    assume "\<exists>mp feature. mid_price ob = Some mp \<and> mp \<noteq> 0 \<and>
         merger_added (snd (handle_orderbook_update now ob r)) =
           merger_added r @ [orderbook_event ob mp feature (latest_trade_agg r)]"
    then obtain mp feature where
      "merger_added (snd (handle_orderbook_update now ob r)) =
           merger_added r @ [orderbook_event ob mp feature (latest_trade_agg r)]"
      by blast
    then show ?thesis using CallOrderbookUpdate
      by (simp add: orderbook_event_contains)
  qed
qed (simp_all add: stop_fields setup_callbacks_fields run_start_fields handle_inference_fields
       handle_activity_spike_fields)

lemma steps_added:
  "list_all (\<lambda>c. \<not> is_trade_aggregate c) cs \<Longrightarrow>
   \<exists>ys. merger_added (steps cs r) = merger_added r @ ys \<and> (\<forall>ev\<in>set ys. latest_trade_agg r \<subseteq>\<^sub>m ev)"
proof (induction cs arbitrary: r)
  case Nil
  then show ?case by simp
next
  case (Cons c cs)
  then have c: "\<not> is_trade_aggregate c" and cs: "list_all (\<lambda>c. \<not> is_trade_aggregate c) cs"
    by simp_all
  from step_added[OF c, of r] obtain xs where
    xs: "merger_added (step c r) = merger_added r @ xs" "\<forall>ev\<in>set xs. latest_trade_agg r \<subseteq>\<^sub>m ev"
    by blast
  from Cons.IH[OF cs, of "step c r"] obtain ys where
    ys: "merger_added (steps cs (step c r)) = merger_added (step c r) @ ys"
        "\<forall>ev\<in>set ys. latest_trade_agg (step c r) \<subseteq>\<^sub>m ev"
    by blast
  have "merger_added (steps (c # cs) r) = merger_added r @ (xs @ ys)"
    using xs(1) ys(1) by simp
  moreover have "\<forall>ev\<in>set (xs @ ys). latest_trade_agg r \<subseteq>\<^sub>m ev"
    using xs(2) ys(2) step_keeps_aggregate[OF c, of r] by auto
  ultimately show ?case by blast
qed

subsection \<open>Facts for the examples of the runner\<close>

lemma example_runner_fields:
  "last_activity_spike_ts example_runner = PNone"
  "activity_spike_ttl example_runner = 1"
  "latest_trade_agg example_runner = Map.empty"
  "merger_added example_runner = []"
  "model_runner example_runner = None"
  "merger_on_merge example_runner = []"
  "predicted example_runner = []"
  "running example_runner = False"
  "tasks example_runner = []"
  by (simp_all add: example_runner_def fresh_runner_def)

lemma example_orderbook_fields:
  "mid_price example_orderbook = Some 100"
  "last_update_ts example_orderbook = 50"
  "imbalance example_orderbook = (1/5, 6, 4)"
  "near_price_volume example_orderbook = [''near_bid_volume'' \<mapsto> Num 3, ''near_ask_volume'' \<mapsto> Num 2]"
  by (simp_all add: example_orderbook_def)

lemma handle_trade_aggregate_fields:
  "latest_trade_agg (handle_trade_aggregate agg r) = agg"
  "merger_added (handle_trade_aggregate agg r) = merger_added r"
  "last_activity_spike_ts (handle_trade_aggregate agg r) = last_activity_spike_ts r"
  "activity_spike_ttl (handle_trade_aggregate agg r) = activity_spike_ttl r"
  "model_runner (handle_trade_aggregate agg r) = model_runner r"
  "merger_on_merge (handle_trade_aggregate agg r) = merger_on_merge r"
  "predicted (handle_trade_aggregate agg r) = predicted r"
  by (simp_all add: handle_trade_aggregate_def)

lemma handle_orderbook_update_idle:
  "last_activity_spike_ts r = PNone \<Longrightarrow> mid_price ob = Some mp \<Longrightarrow> mp \<noteq> 0 \<Longrightarrow>
   merger_added (snd (handle_orderbook_update now ob r)) =
     merger_added r @ [orderbook_event ob mp 0 (latest_trade_agg r)]"
  by (simp add: handle_orderbook_update_def add_orderbook_def)

section \<open>The claims about the runner\<close>

text \<open>
  C5. Once \<^verbatim>\<open>_handle_trade_aggregate\<close> has cached an aggregate, every order-book
  feature event handed to the merger afterwards (until another aggregate is cached)
  contains all pairs of the cached aggregate: where the aggregate and the fields from
  the order book share a key, the value of the aggregate stands in the event. So with a
  key \<^verbatim>\<open>ts\<close> in the aggregate, the \<^verbatim>\<open>ts\<close> of the event is that of the aggregate, not
  \<^verbatim>\<open>last_update_ts\<close> of the order book.
\<close>

theorem cached_aggregate_wins:
  assumes "list_all (\<lambda>c. \<not> is_trade_aggregate c) cs"
  shows "\<forall>ev \<in> set (drop (length (merger_added r))
                      (merger_added (steps cs (handle_trade_aggregate agg r)))).
           agg \<subseteq>\<^sub>m ev \<and> (\<forall>k v. agg k = Some v \<longrightarrow> ev k = Some v)
           \<and> (\<forall>v. agg ''ts'' = Some v \<longrightarrow> ev ''ts'' = Some v)"
proof -
  let ?r = "handle_trade_aggregate agg r"
  have a: "latest_trade_agg ?r = agg" and m: "merger_added ?r = merger_added r"
    by (simp_all add: handle_trade_aggregate_def)
  from steps_added[OF assms, of ?r] obtain ys where
    ys: "merger_added (steps cs ?r) = merger_added r @ ys" "\<forall>ev\<in>set ys. agg \<subseteq>\<^sub>m ev"
    unfolding a m by blast
  have "\<And>ev k v. agg \<subseteq>\<^sub>m ev \<Longrightarrow> agg k = Some v \<Longrightarrow> ev k = Some v"
    by (metis domI map_le_def)
  with ys show ?thesis by auto
qed

text \<open>
  The balanced aggregate has the time 100, the order book was updated at 50: the event
  carries 100.
\<close>

theorem cached_aggregate_wins_witness:
  "list_all (\<lambda>c. \<not> is_trade_aggregate c) [CallOrderbookUpdate 200 example_orderbook :: nat call]
   \<and> merger_added (steps [CallOrderbookUpdate 200 example_orderbook]
         (handle_trade_aggregate balanced_event example_runner))
       = [orderbook_event example_orderbook 100 0 balanced_event]
   \<and> balanced_event ''ts'' = Some (Num 100)
   \<and> last_update_ts example_orderbook = 50
   \<and> orderbook_event example_orderbook 100 0 balanced_event ''ts'' = Some (Num 100)"
proof -
  let ?cs = "[CallOrderbookUpdate 200 example_orderbook :: nat call]"
  let ?ev = "orderbook_event example_orderbook 100 0 balanced_event"
  have l: "list_all (\<lambda>c. \<not> is_trade_aggregate c) ?cs" by simp
  have m: "merger_added (steps ?cs (handle_trade_aggregate balanced_event example_runner)) = [?ev]"
    by (simp add: handle_orderbook_update_idle[where mp=100] handle_trade_aggregate_fields
        example_runner_fields example_orderbook_fields)
  have t: "balanced_event ''ts'' = Some (Num 100)"
    by (simp add: balanced_event_def)
  from cached_aggregate_wins[OF l, of example_runner balanced_event]
  have "?ev ''ts'' = Some (Num 100)"
    unfolding m using t by (simp add: example_runner_fields)
  with l m t show ?thesis by (simp add: example_orderbook_fields)
qed

subsection \<open>The fields of the order-book event\<close>

lemma handle_orderbook_update_falsy:
  "mid_price ob = None \<or> mid_price ob = Some 0 \<Longrightarrow> handle_orderbook_update now ob r = (None, r)"
  by (auto simp: handle_orderbook_update_def)

lemma orderbook_event_mid_price:
  "near_price_volume ob ''mid_price'' = None \<Longrightarrow> agg ''mid_price'' = None \<Longrightarrow>
   orderbook_event ob mp feature agg ''mid_price'' = Some (Num mp)"
  by (simp add: orderbook_event_other_key)

lemma orderbook_event_activity_spike:
  "near_price_volume ob ''activity_spike'' = None \<Longrightarrow> agg ''activity_spike'' = None \<Longrightarrow>
   orderbook_event ob mp feature agg ''activity_spike'' = Some (Num feature)"
  by (simp add: orderbook_event_other_key)

text \<open>
  C10, as amended. When the mid price of the order book is falsy (\<^verbatim>\<open>None\<close> or 0),
  \<^verbatim>\<open>_handle_orderbook_update\<close> returns without handing anything to the merger. When
  neither \<^verbatim>\<open>near_price_volume\<close> nor the cached aggregate has a key \<^verbatim>\<open>mid_price\<close>,
  every event handed to \<^verbatim>\<open>add_orderbook\<close> has the mid price of the order book in its
  field \<^verbatim>\<open>mid_price\<close>, a number other than 0.
\<close>

theorem emitted_mid_price_nonzero:
  assumes "near_price_volume ob ''mid_price'' = None"
    and "latest_trade_agg r ''mid_price'' = None"
  shows "(mid_price ob = None \<or> mid_price ob = Some 0 \<longrightarrow>
            handle_orderbook_update now ob r = (None, r))
       \<and> (\<forall>ev \<in> set (drop (length (merger_added r))
                         (merger_added (snd (handle_orderbook_update now ob r)))).
            \<exists>mp. mid_price ob = Some mp \<and> mp \<noteq> 0 \<and> ev ''mid_price'' = Some (Num mp))"
proof
  show "mid_price ob = None \<or> mid_price ob = Some 0 \<longrightarrow>
            handle_orderbook_update now ob r = (None, r)"
    by (simp add: handle_orderbook_update_falsy)
next
  from handle_orderbook_update_added[of now ob r]
  show "\<forall>ev \<in> set (drop (length (merger_added r))
                         (merger_added (snd (handle_orderbook_update now ob r)))).
            \<exists>mp. mid_price ob = Some mp \<and> mp \<noteq> 0 \<and> ev ''mid_price'' = Some (Num mp)"
  proof
    assume "merger_added (snd (handle_orderbook_update now ob r)) = merger_added r"
    then show ?thesis by simp
  next
    assume "\<exists>mp feature. mid_price ob = Some mp \<and> mp \<noteq> 0 \<and>
         merger_added (snd (handle_orderbook_update now ob r)) =
           merger_added r @ [orderbook_event ob mp feature (latest_trade_agg r)]"
    then obtain mp feature where mp: "mid_price ob = Some mp" "mp \<noteq> 0"
      and m: "merger_added (snd (handle_orderbook_update now ob r)) =
           merger_added r @ [orderbook_event ob mp feature (latest_trade_agg r)]"
      by blast
    show ?thesis
      unfolding m using mp assms by (simp add: orderbook_event_mid_price)
  qed
qed

text \<open>The example order book has the mid price 100, and the event carries it.\<close>

theorem emitted_mid_price_nonzero_witness:
  "near_price_volume example_orderbook ''mid_price'' = None
   \<and> latest_trade_agg example_runner ''mid_price'' = None
   \<and> merger_added (snd (handle_orderbook_update 200 example_orderbook example_runner))
       = [orderbook_event example_orderbook 100 0 Map.empty]
   \<and> orderbook_event example_orderbook 100 0 Map.empty ''mid_price'' = Some (Num 100)"
proof -
  let ?ev = "orderbook_event example_orderbook 100 0 Map.empty"
  have n: "near_price_volume example_orderbook ''mid_price'' = None"
    by (simp add: example_orderbook_fields)
  have a: "latest_trade_agg example_runner ''mid_price'' = None"
    by (simp add: example_runner_fields)
  have m: "merger_added (snd (handle_orderbook_update 200 example_orderbook example_runner)) = [?ev]"
    by (simp add: handle_orderbook_update_idle[where mp=100] example_runner_fields
        example_orderbook_fields)
  from emitted_mid_price_nonzero[OF n a, of 200]
  have "?ev ''mid_price'' = Some (Num 100)"
    unfolding m by (simp add: example_runner_fields example_orderbook_fields)
  with n a m show ?thesis by simp
qed

text \<open>
  The claim as stated covers every event. The entries of the cached aggregate come last
  in the dictionary of the event, so an aggregate with a key \<^verbatim>\<open>mid_price\<close> replaces
  the mid price of the order book: here by 0.
\<close>

theorem mid_price_overridden_counterexample:
  "merger_added (snd (handle_orderbook_update 200 example_orderbook
       (handle_trade_aggregate mid_price_aggregate example_runner)))
     = [orderbook_event example_orderbook 100 0 mid_price_aggregate]
   \<and> orderbook_event example_orderbook 100 0 mid_price_aggregate ''mid_price'' = Some (Num 0)"
proof -
  have "merger_added (snd (handle_orderbook_update 200 example_orderbook
       (handle_trade_aggregate mid_price_aggregate example_runner)))
     = [orderbook_event example_orderbook 100 0 mid_price_aggregate]"
    by (simp add: handle_orderbook_update_idle[where mp=100] handle_trade_aggregate_fields
        example_runner_fields example_orderbook_fields)
  moreover have "orderbook_event example_orderbook 100 0 mid_price_aggregate ''mid_price''
      = Some (Num 0)"
    by (simp add: orderbook_event_agg_key mid_price_aggregate_def)
  ultimately show ?thesis by simp
qed

subsection \<open>The flag of a recent activity spike\<close>

lemma handle_orderbook_update_fresh:
  assumes "last_activity_spike_ts r = Num t0" "t0 \<noteq> 0" "mid_price ob = Some mp" "mp \<noteq> 0"
  shows "handle_orderbook_update now ob r =
    (if now - t0 < activity_spike_ttl r
     then (None, add_orderbook (orderbook_event ob mp 1 (latest_trade_agg r)) r)
     else (None, add_orderbook (orderbook_event ob mp 0 (latest_trade_agg r))
                   (r\<lparr> last_activity_spike_ts := PNone \<rparr>)))"
  using assms by (simp add: handle_orderbook_update_def)

lemma add_orderbook_fields:
  "merger_added (add_orderbook ev r) = merger_added r @ [ev]"
  "last_activity_spike_ts (add_orderbook ev r) = last_activity_spike_ts r"
  "activity_spike_ttl (add_orderbook ev r) = activity_spike_ttl r"
  by (simp_all add: add_orderbook_def)

lemma step_keeps_spike_ts:
  "\<not> sets_spike_ts c \<Longrightarrow> last_activity_spike_ts (step c r) = last_activity_spike_ts r"
  by (cases c)
     (simp_all add: stop_fields setup_callbacks_fields run_start_fields handle_inference_fields
        handle_trade_aggregate_fields)

lemma spiked_runner_fields:
  "last_activity_spike_ts (handle_activity_spike d r) = dict_get d ''ts'' PNone"
  "activity_spike_ttl (handle_activity_spike d r) = activity_spike_ttl r"
  by (simp_all add: handle_activity_spike_def)

lemma balanced_spike_ts:
  "dict_get balanced_spike ''ts'' PNone
     = Num 100"
  by (simp add: dict_get_def balanced_spike_def spike_data_lookup)

text \<open>
  C3, as amended. \<^verbatim>\<open>_handle_activity_spike\<close> stores the timestamp of the spike. While a
  timestamp \<open>t0\<close> other than 0 is stored, an order-book feature event emitted at the
  time \<open>now\<close> has the field \<^verbatim>\<open>activity_spike\<close> 1 when \<open>now - t0\<close> is less than the
  time to live and 0 otherwise, provided neither \<^verbatim>\<open>near_price_volume\<close> nor the cached
  aggregate has a key \<^verbatim>\<open>activity_spike\<close>. The check at the emission is all there is
  to the expiry: an expired check resets the stored timestamp to \<^verbatim>\<open>None\<close>, a check
  that is not expired keeps it, the time to live is 1 from the constructor on, and no
  other call of the runner than the two handlers assigns the timestamp.
\<close>

theorem activity_spike_flag_ttl:
  fixes r :: "'m runner"
  assumes "last_activity_spike_ts r = Num t0" and "t0 \<noteq> 0"
    and "mid_price ob = Some mp" and "mp \<noteq> 0"
    and "near_price_volume ob ''activity_spike'' = None"
    and "latest_trade_agg r ''activity_spike'' = None"
  shows "fst (handle_orderbook_update now ob r) = None
     \<and> (\<exists>ev. merger_added (snd (handle_orderbook_update now ob r)) = merger_added r @ [ev]
            \<and> ev ''activity_spike'' = Some (Num (if now - t0 < activity_spike_ttl r then 1 else 0)))
     \<and> last_activity_spike_ts (snd (handle_orderbook_update now ob r)) =
         (if now - t0 < activity_spike_ttl r then Num t0 else PNone)
     \<and> activity_spike_ttl (snd (handle_orderbook_update now ob r)) = activity_spike_ttl r
     \<and> last_activity_spike_ts (handle_activity_spike d r) = dict_get d ''ts'' PNone
     \<and> activity_spike_ttl (fresh_runner name an :: 'n runner) = 1
     \<and> (\<forall>c. \<not> sets_spike_ts c \<longrightarrow> last_activity_spike_ts (step c r) = last_activity_spike_ts r)"
proof (intro conjI allI impI)
  note h = handle_orderbook_update_fresh[OF assms(1-4), of now]
  show "fst (handle_orderbook_update now ob r) = None"
    unfolding h by simp
  show "\<exists>ev. merger_added (snd (handle_orderbook_update now ob r)) = merger_added r @ [ev]
            \<and> ev ''activity_spike'' = Some (Num (if now - t0 < activity_spike_ttl r then 1 else 0))"
    unfolding h using assms(5,6)
    by (simp add: add_orderbook_fields orderbook_event_activity_spike)
  show "last_activity_spike_ts (snd (handle_orderbook_update now ob r)) =
         (if now - t0 < activity_spike_ttl r then Num t0 else PNone)"
    unfolding h using assms(1) by (simp add: add_orderbook_fields)
  show "activity_spike_ttl (snd (handle_orderbook_update now ob r)) = activity_spike_ttl r"
    unfolding h by (simp add: add_orderbook_fields)
  show "last_activity_spike_ts (handle_activity_spike d r) = dict_get d ''ts'' PNone"
    by (simp add: handle_activity_spike_def)
  show "activity_spike_ttl (fresh_runner name an :: 'n runner) = 1"
    by (simp add: fresh_runner_def)
next
  fix c :: "'m call"
  assume "\<not> sets_spike_ts c"
  then show "last_activity_spike_ts (step c r) = last_activity_spike_ts r"
    by (rule step_keeps_spike_ts)
qed

text \<open>
  A spike at 100 with the time to live 1: an event at 100.5 is flagged, an event at 101
  is not, and the timestamp is gone after it.
\<close>

theorem activity_spike_flag_ttl_witness:
  "(\<exists>ev. merger_added (snd (handle_orderbook_update (1005/10) example_orderbook
            (handle_activity_spike
               balanced_spike
               example_runner))) = [ev]
         \<and> ev ''activity_spike'' = Some (Num 1))
   \<and> (\<exists>ev. merger_added (snd (handle_orderbook_update 101 example_orderbook
            (handle_activity_spike
               balanced_spike
               example_runner))) = [ev]
         \<and> ev ''activity_spike'' = Some (Num 0))
   \<and> last_activity_spike_ts (snd (handle_orderbook_update 101 example_orderbook
            (handle_activity_spike
               balanced_spike
               example_runner))) = PNone"
proof -
  let ?d = "balanced_spike"
  let ?r = "handle_activity_spike ?d example_runner"
  have t: "last_activity_spike_ts ?r = Num 100"
    by (simp only: spiked_runner_fields balanced_spike_ts)
  have z: "(100::real) \<noteq> 0" by simp
  have m: "mid_price example_orderbook = Some 100"
    by (simp add: example_orderbook_fields)
  have n: "near_price_volume example_orderbook ''activity_spike'' = None"
    by (simp add: example_orderbook_fields)
  have a: "latest_trade_agg ?r ''activity_spike'' = None"
    by (simp add: handle_activity_spike_fields example_runner_fields)
  have f: "merger_added ?r = []" "activity_spike_ttl ?r = 1"
    by (simp_all add: handle_activity_spike_fields spiked_runner_fields example_runner_fields)
  note th = activity_spike_flag_ttl[OF t z m z n a]
  from th[where now="1005/10", THEN conjunct2, THEN conjunct1] have one:
    "\<exists>ev. merger_added (snd (handle_orderbook_update (1005/10) example_orderbook ?r)) = [ev]
         \<and> ev ''activity_spike'' = Some (Num 1)"
    by (simp add: f)
  from th[where now=101, THEN conjunct2, THEN conjunct1] have zero:
    "\<exists>ev. merger_added (snd (handle_orderbook_update 101 example_orderbook ?r)) = [ev]
         \<and> ev ''activity_spike'' = Some (Num 0)"
    by (simp add: f)
  from th[where now=101, THEN conjunct2, THEN conjunct2, THEN conjunct1] have gone:
    "last_activity_spike_ts (snd (handle_orderbook_update 101 example_orderbook ?r)) = PNone"
    by (simp add: f)
  from one zero gone show ?thesis by blast
qed

text \<open>
  The claim as stated covers every emitted event. The entries of the cached aggregate
  come last in the dictionary of the event: with a key \<^verbatim>\<open>activity_spike\<close> in the
  aggregate, an event half a second after the spike carries the value of the aggregate.
\<close>

theorem activity_spike_overridden_counterexample:
  "last_activity_spike_ts
     (handle_activity_spike
        balanced_spike
        (handle_trade_aggregate flagged_aggregate example_runner)) = Num 100
   \<and> (1005/10 :: real) - 100 < 1
   \<and> merger_added (snd (handle_orderbook_update (1005/10) example_orderbook
        (handle_activity_spike
           balanced_spike
           (handle_trade_aggregate flagged_aggregate example_runner))))
       = [orderbook_event example_orderbook 100 1 flagged_aggregate]
   \<and> orderbook_event example_orderbook 100 1 flagged_aggregate ''activity_spike'' = Some (Num 0)"
proof -
  let ?d = "balanced_spike"
  let ?r = "handle_activity_spike ?d (handle_trade_aggregate flagged_aggregate example_runner)"
  have t: "last_activity_spike_ts ?r = Num 100"
    by (simp only: spiked_runner_fields balanced_spike_ts)
  have z: "(100::real) \<noteq> 0" by simp
  have m: "mid_price example_orderbook = Some 100"
    by (simp add: example_orderbook_fields)
  have "merger_added (snd (handle_orderbook_update (1005/10) example_orderbook ?r))
       = [orderbook_event example_orderbook 100 1 flagged_aggregate]"
    unfolding handle_orderbook_update_fresh[OF t z m z]
    by (simp add: add_orderbook_fields spiked_runner_fields handle_activity_spike_fields
        handle_trade_aggregate_fields example_runner_fields)
  moreover have "orderbook_event example_orderbook 100 1 flagged_aggregate ''activity_spike''
       = Some (Num 0)"
    by (simp add: orderbook_event_agg_key flagged_aggregate_def)
  ultimately show ?thesis using t by simp
qed

text \<open>
  The timestamp 0 is left out of the amended claim. Line 103 tests the stored
  timestamp for truth, and 0 is false as \<^verbatim>\<open>None\<close> is: a spike with the timestamp 0
  is never flagged, not even half a second later.
\<close>

lemma zero_timestamp_spike_not_flagged:
  "last_activity_spike_ts (handle_activity_spike epoch_spike example_runner) = Num 0
   \<and> (1/2 :: real) - 0 < activity_spike_ttl (handle_activity_spike epoch_spike example_runner)
   \<and> merger_added (snd (handle_orderbook_update (1/2) example_orderbook
        (handle_activity_spike epoch_spike example_runner)))
       = [orderbook_event example_orderbook 100 0 Map.empty]
   \<and> orderbook_event example_orderbook 100 0 Map.empty ''activity_spike'' = Some (Num 0)"
proof -
  let ?r = "handle_activity_spike epoch_spike example_runner"
  have t: "last_activity_spike_ts ?r = Num 0"
    by (simp add: spiked_runner_fields epoch_spike_def dict_get_def spike_data_lookup)
  have "merger_added (snd (handle_orderbook_update (1/2) example_orderbook ?r))
       = [orderbook_event example_orderbook 100 0 Map.empty]"
    by (simp add: handle_orderbook_update_def t add_orderbook_fields example_orderbook_fields
        handle_activity_spike_fields example_runner_fields)
  moreover have "orderbook_event example_orderbook 100 0 Map.empty ''activity_spike'' = Some (Num 0)"
    by (simp add: orderbook_event_activity_spike example_orderbook_fields)
  ultimately show ?thesis using t
    by (simp add: spiked_runner_fields example_runner_fields)
qed

subsection \<open>The runner without a model\<close>

lemma handle_orderbook_update_model:
  "model_runner (snd (handle_orderbook_update now ob r)) = model_runner r"
  "merger_on_merge (snd (handle_orderbook_update now ob r)) = merger_on_merge r"
  "predicted (snd (handle_orderbook_update now ob r)) = predicted r"
  by (auto simp: handle_orderbook_update_def add_orderbook_def split: option.splits sum.splits)

lemma handle_inference_without_model:
  "model_runner r = None \<Longrightarrow> handle_inference predict mr r = (None, r)"
  by (simp add: handle_inference_def)

lemma run_start_without_model:
  "model_runner r = None \<Longrightarrow> merger_on_merge (run_start r) = merger_on_merge r"
  by (simp add: run_start_def setup_callbacks_def)

text \<open>Without a model no call of the runner registers a callback for merges or predicts.\<close>

lemma step_keeps_degraded:
  assumes "model_runner r = None" "merger_on_merge r = []" "predicted r = []"
  shows "model_runner (step c r) = None \<and> merger_on_merge (step c r) = []
         \<and> predicted (step c r) = []"
  using assms
  by (cases c)
     (simp_all add: handle_orderbook_update_model stop_fields setup_callbacks_fields
        run_start_fields run_start_without_model handle_inference_without_model
        handle_activity_spike_fields handle_trade_aggregate_fields)

lemma steps_keep_degraded:
  "model_runner r = None \<Longrightarrow> merger_on_merge r = [] \<Longrightarrow> predicted r = [] \<Longrightarrow>
   model_runner (steps cs r) = None \<and> merger_on_merge (steps cs r) = []
     \<and> predicted (steps cs r) = []"
proof (induction cs arbitrary: r)
  case Nil
  then show ?case by simp
next
  case (Cons c cs)
  from step_keeps_degraded[OF Cons.prems, of c]
  have "model_runner (step c r) = None" "merger_on_merge (step c r) = []"
    "predicted (step c r) = []"
    by simp_all
  from Cons.IH[OF this] show ?case by simp
qed

lemma fresh_runner_fields:
  "model_runner (fresh_runner name an) = None"
  "merger_model_runner (fresh_runner name an) = None"
  "merger_on_merge (fresh_runner name an) = []"
  "predicted (fresh_runner name an) = []"
  by (simp_all add: fresh_runner_def)

lemma runner_init_caught:
  fixes an :: "(real, handler) analyzer"
  shows "fst (analyzer_init 10 2 (1/2) (12/10) False default_save_path fs) = Inr an \<Longrightarrow>
   load model_path = Inl (Exception n) \<Longrightarrow>
   fst (runner_init load name model_path fs) = Inr (fresh_runner name an)"
  by (simp add: runner_init_def Let_def)

lemma example_runner_built:
  "fst (analyzer_init 10 2 (1/2) (12/10) False default_save_path empty_files)
     = Inr (new_analyzer 10 2 (1/2) (12/10) False default_save_path :: (real, handler) analyzer)"
  by (simp add: analyzer_init_def open_write_def path_exists_def empty_files_def
      default_save_path_def)

text \<open>
  C8, as amended. The construction of the model is reached once the analyzer of line 46
  has been built. If it then raises an exception that is an instance of
  \<^verbatim>\<open>Exception\<close>, \<^verbatim>\<open>__init__\<close> completes with \<^verbatim>\<open>model_runner\<close> left \<^verbatim>\<open>None\<close> (and the
  merger without a model); after any run of calls of the runner's methods
  \<^verbatim>\<open>model_runner\<close> is still \<^verbatim>\<open>None\<close>, no callback for merges is registered and nothing
  was predicted; and \<^verbatim>\<open>_handle_inference\<close> returns without a prediction.
\<close>

theorem degraded_without_model:
  fixes an :: "(real, handler) analyzer"
  assumes "fst (analyzer_init 10 2 (1/2) (12/10) False default_save_path fs) = Inr an"
    and "load model_path = Inl (Exception n)"
  shows "\<exists>r. fst (runner_init load name model_path fs) = Inr r
          \<and> model_runner r = None \<and> merger_model_runner r = None
          \<and> (\<forall>cs. model_runner (steps cs r) = None
                  \<and> merger_on_merge (steps cs r) = []
                  \<and> predicted (steps cs r) = [])
          \<and> (\<forall>predict mr cs. handle_inference predict mr (steps cs r) = (None, steps cs r))"
proof -
  let ?r = "fresh_runner name an :: 'a runner"
  have i: "fst (runner_init load name model_path fs) = Inr ?r"
    using assms by (rule runner_init_caught)
  have s: "model_runner (steps cs ?r) = None \<and> merger_on_merge (steps cs ?r) = []
          \<and> predicted (steps cs ?r) = []" for cs
    by (rule steps_keep_degraded) (simp_all add: fresh_runner_fields)
  have h: "handle_inference predict mr (steps cs ?r) = (None, steps cs ?r)" for predict mr cs
    by (rule handle_inference_without_model) (rule s[THEN conjunct1])
  show ?thesis
    by (rule exI[of _ ?r]) (intro conjI allI i s h fresh_runner_fields)
qed

text \<open>
  The file of the model is missing: the constructor gives the runner without a model,
  and \<^verbatim>\<open>run\<close> starts it without a callback for merges.
\<close>

theorem degraded_without_model_witness:
  "fst (analyzer_init 10 2 (1/2) (12/10) False default_save_path empty_files)
     = Inr (new_analyzer 10 2 (1/2) (12/10) False default_save_path :: (real, handler) analyzer)
   \<and> load_missing ''model.pkl'' = Inl (Exception ''FileNotFoundError'')
   \<and> fst (runner_init load_missing ''btcusdt'' ''model.pkl'' empty_files) = Inr example_runner
   \<and> model_runner (steps [CallRun] example_runner) = None
   \<and> merger_on_merge (steps [CallRun] example_runner) = []
   \<and> running (steps [CallRun] example_runner)"
proof -
  have l: "load_missing ''model.pkl'' = Inl (Exception ''FileNotFoundError'')"
    by (simp add: load_missing_def)
  have i: "fst (runner_init load_missing ''btcusdt'' ''model.pkl'' empty_files) = Inr example_runner"
    using example_runner_built l by (simp add: runner_init_caught example_runner_def)
  from degraded_without_model[where load=load_missing and model_path="''model.pkl''",
      OF example_runner_built l, of "''btcusdt''"] obtain r where
    r: "fst (runner_init load_missing ''btcusdt'' ''model.pkl'' empty_files) = Inr r"
    and a: "\<forall>cs. model_runner (steps cs r) = None \<and> merger_on_merge (steps cs r) = []
                  \<and> predicted (steps cs r) = []"
    by blast
  from r i have "r = example_runner" by simp
  with a have "model_runner (steps [CallRun] example_runner) = None"
    "merger_on_merge (steps [CallRun] example_runner) = []"
    by blast+
  moreover have "running (steps [CallRun] example_runner)"
    by (simp add: run_start_def setup_callbacks_def example_runner_fields)
  ultimately show ?thesis using l i example_runner_built by simp
qed

text \<open>
  The claim as stated covers any exception. \<^verbatim>\<open>except Exception\<close> does not catch
  \<^verbatim>\<open>KeyboardInterrupt\<close> or \<^verbatim>\<open>SystemExit\<close>: an interrupt while the model loads
  leaves \<^verbatim>\<open>__init__\<close> as an exception, after the analyzer has been built.
\<close>

theorem interrupted_load_counterexample:
  "fst (analyzer_init 10 2 (1/2) (12/10) False default_save_path empty_files)
     = Inr (new_analyzer 10 2 (1/2) (12/10) False default_save_path :: (real, handler) analyzer)
   \<and> load_interrupted ''model.pkl'' = Inl (BaseException ''KeyboardInterrupt'')
   \<and> fst (runner_init load_interrupted ''btcusdt'' ''model.pkl'' empty_files)
       = Inl (BaseException ''KeyboardInterrupt'')"
  by (simp add: runner_init_def load_interrupted_def Let_def analyzer_init_def open_write_def
      path_exists_def empty_files_def default_save_path_def)

subsection \<open>The order of \<^verbatim>\<open>stop\<close>\<close>

lemma stop_not_running: "\<not> running r \<Longrightarrow> stop env r = (None, [], r)"
  by (simp add: stop_def)

lemma stop_aborted:
  "running r \<Longrightarrow> gather_abort [orderbook_stop env, trades_stop env] = Some x \<Longrightarrow>
   stop env r = (Some x, [StopSource OrderbookC, StopSource TradesC], r\<lparr> running := False \<rparr>)"
  by (simp add: stop_def Let_def)

lemma stop_merger_raised:
  "running r \<Longrightarrow> gather_abort [orderbook_stop env, trades_stop env] = None \<Longrightarrow>
   merger_stop env = Some x \<Longrightarrow>
   stop env r = (Some x, [StopSource OrderbookC, StopSource TradesC, SourcesAwaited, StopMerger],
                 r\<lparr> running := False \<rparr>)"
  by (simp add: stop_def Let_def)

lemma stop_completed:
  "running r \<Longrightarrow> gather_abort [orderbook_stop env, trades_stop env] = None \<Longrightarrow>
   merger_stop env = None \<Longrightarrow>
   stop env r = (None,
       [StopSource OrderbookC, StopSource TradesC, SourcesAwaited, StopMerger, MergerAwaited]
         @ map CancelTask (filter (\<lambda>t. \<not> task_done env t) (tasks r)) @ [TasksAwaited],
       r\<lparr> running := False \<rparr>)"
  by (simp add: stop_def Let_def)

lemma stop_order:
  assumes "running r"
  shows "\<not> running (snd (snd (stop env r)))
     \<and> take 2 (fst (snd (stop env r))) = [StopSource OrderbookC, StopSource TradesC]
     \<and> precedes (StopSource OrderbookC) (\<lambda>e. e = SourcesAwaited) (fst (snd (stop env r)))
     \<and> precedes (StopSource TradesC) (\<lambda>e. e = SourcesAwaited) (fst (snd (stop env r)))
     \<and> precedes SourcesAwaited (\<lambda>e. e = StopMerger) (fst (snd (stop env r)))
     \<and> precedes StopMerger (\<lambda>e. e = MergerAwaited) (fst (snd (stop env r)))
     \<and> precedes MergerAwaited is_task_step (fst (snd (stop env r)))"
proof (cases "gather_abort [orderbook_stop env, trades_stop env]")
  case (Some x)
  show ?thesis
    unfolding stop_aborted[OF assms Some] by simp
next
  case None
  show ?thesis
  proof (cases "merger_stop env")
    case (Some x)
    show ?thesis
      unfolding stop_merger_raised[OF assms None Some] by simp
  next
    case n: None
    show ?thesis
      unfolding stop_completed[OF assms None n] by simp
  qed
qed

lemma started_runner_fields:
  "running (run_start example_runner)"
  "tasks (run_start example_runner) = [OrderbookC, TradesC, MergerC]"
  by (simp_all add: run_start_def setup_callbacks_def example_runner_fields)

text \<open>
  C4. \<^verbatim>\<open>stop\<close> on a runner that is not running does nothing. On a running runner it
  clears the flag and stops in two phases: it first asks the order book and the trade
  stream to stop and awaits both; only then it stops the merger and awaits it; and only
  after that it cancels the tasks that are not done and awaits the tasks. Every step of
  a later phase has the end of the phase before it earlier in the order of steps, and
  when no stop raises past \<^verbatim>\<open>stop\<close>, all steps are taken.
\<close>

theorem stop_two_phase:
  "(\<not> running r \<longrightarrow> stop env r = (None, [], r))
   \<and> (running r \<longrightarrow>
        \<not> running (snd (snd (stop env r)))
        \<and> take 2 (fst (snd (stop env r))) = [StopSource OrderbookC, StopSource TradesC]
        \<and> precedes (StopSource OrderbookC) (\<lambda>e. e = SourcesAwaited) (fst (snd (stop env r)))
        \<and> precedes (StopSource TradesC) (\<lambda>e. e = SourcesAwaited) (fst (snd (stop env r)))
        \<and> precedes SourcesAwaited (\<lambda>e. e = StopMerger) (fst (snd (stop env r)))
        \<and> precedes StopMerger (\<lambda>e. e = MergerAwaited) (fst (snd (stop env r)))
        \<and> precedes MergerAwaited is_task_step (fst (snd (stop env r)))
        \<and> (gather_abort [orderbook_stop env, trades_stop env] = None \<and> merger_stop env = None \<longrightarrow>
              fst (stop env r) = None
              \<and> fst (snd (stop env r)) =
                  [StopSource OrderbookC, StopSource TradesC, SourcesAwaited, StopMerger, MergerAwaited]
                  @ map CancelTask (filter (\<lambda>t. \<not> task_done env t) (tasks r))
                  @ [TasksAwaited]))"
proof (intro conjI impI)
  assume "\<not> running r"
  then show "stop env r = (None, [], r)" by (rule stop_not_running)
next
  assume r: "running r"
  note o = stop_order[OF r, of env]
  show "\<not> running (snd (snd (stop env r)))" using o by blast
  show "take 2 (fst (snd (stop env r))) = [StopSource OrderbookC, StopSource TradesC]"
    using o by blast
  show "precedes (StopSource OrderbookC) (\<lambda>e. e = SourcesAwaited) (fst (snd (stop env r)))"
    using o by blast
  show "precedes (StopSource TradesC) (\<lambda>e. e = SourcesAwaited) (fst (snd (stop env r)))"
    using o by blast
  show "precedes SourcesAwaited (\<lambda>e. e = StopMerger) (fst (snd (stop env r)))"
    using o by blast
  show "precedes StopMerger (\<lambda>e. e = MergerAwaited) (fst (snd (stop env r)))"
    using o by blast
  show "precedes MergerAwaited is_task_step (fst (snd (stop env r)))"
    using o by blast
next
  assume r: "running r"
    and "gather_abort [orderbook_stop env, trades_stop env] = None \<and> merger_stop env = None"
  then have g: "gather_abort [orderbook_stop env, trades_stop env] = None"
    and m: "merger_stop env = None"
    by simp_all
  show "fst (stop env r) = None"
    unfolding stop_completed[OF r g m] by simp
  show "fst (snd (stop env r)) =
          [StopSource OrderbookC, StopSource TradesC, SourcesAwaited, StopMerger, MergerAwaited]
          @ map CancelTask (filter (\<lambda>t. \<not> task_done env t) (tasks r))
          @ [TasksAwaited]"
    unfolding stop_completed[OF r g m] by simp
qed

text \<open>
  A runner after \<^verbatim>\<open>run\<close>, with an order book whose \<^verbatim>\<open>stop\<close> raises an
  \<^verbatim>\<open>Exception\<close> (which \<^verbatim>\<open>gather\<close> returns as a result): all steps in order. The
  same call on the runner before \<^verbatim>\<open>run\<close> does nothing.
\<close>

theorem stop_two_phase_witness:
  "running (run_start example_runner)
   \<and> \<not> running example_runner
   \<and> stop (calm_env\<lparr> orderbook_stop := Some (Exception ''ConnectionError'') \<rparr>) example_runner
       = (None, [], example_runner)
   \<and> fst (snd (stop (calm_env\<lparr> orderbook_stop := Some (Exception ''ConnectionError'') \<rparr>)
                  (run_start example_runner)))
       = [StopSource OrderbookC, StopSource TradesC, SourcesAwaited, StopMerger, MergerAwaited,
          CancelTask OrderbookC, CancelTask TradesC, CancelTask MergerC, TasksAwaited]"
proof -
  let ?env = "calm_env\<lparr> orderbook_stop := Some (Exception ''ConnectionError'') \<rparr>"
  note th = stop_two_phase[of _ ?env]
  have e: "gather_abort [orderbook_stop ?env, trades_stop ?env] = None \<and> merger_stop ?env = None"
    by (simp add: calm_env_def)
  have n: "\<not> running example_runner"
    by (simp add: example_runner_fields)
  from th[of example_runner] n
  have a: "stop ?env example_runner = (None, [], example_runner)"
    by blast
  from th[of "run_start example_runner"] started_runner_fields(1) e
  have "fst (snd (stop ?env (run_start example_runner))) =
          [StopSource OrderbookC, StopSource TradesC, SourcesAwaited, StopMerger, MergerAwaited]
          @ map CancelTask (filter (\<lambda>t. \<not> task_done ?env t) (tasks (run_start example_runner)))
          @ [TasksAwaited]"
    by blast
  then have b: "fst (snd (stop ?env (run_start example_runner)))
       = [StopSource OrderbookC, StopSource TradesC, SourcesAwaited, StopMerger, MergerAwaited,
          CancelTask OrderbookC, CancelTask TradesC, CancelTask MergerC, TasksAwaited]"
    by (simp add: started_runner_fields calm_env_def)
  from started_runner_fields(1) n a b show ?thesis by simp
qed

end
